theory Spec2Isabelle
  imports Complex_Main
begin

section \<open>JSON values and the JavaScript operations applied to them\<close>

text \<open>
  The program is TypeScript running on a JavaScript engine. Request bodies and tool
  arguments are decoded JSON, so a value is one of the six JSON shapes. A property of an
  object that is absent reads as \<open>undefined\<close>: a JavaScript value is therefore a
  \<open>json option\<close>, with \<open>None\<close> for \<open>undefined\<close>. An object is the list of its
  own properties in insertion order (a decoded object has no repeated key). Strings are
  lists of 8-bit characters. Console output (\<open>console.log\<close>, \<open>console.error\<close>,
  \<open>console.warn\<close>) is not part of the model.
\<close>

datatype json =
    JNull
  | JBool bool
  | JNum rat
  | JStr string
  | JArr "json list"
  | JObj "(string \<times> json) list"

type_synonym jsval = "json option"

text \<open>
  What a \<open>throw\<close> carries: an \<open>McpError\<close> (code and message), another instance of
  \<open>Error\<close> (its message), or a value that is no \<open>Error\<close> (kept as the string that
  \<open>String(value)\<close> gives).
\<close>

datatype ErrorCode = ParseError | InvalidRequest | MethodNotFound | InvalidParams | InternalError

fun code_of :: "ErrorCode \<Rightarrow> int" where
  "code_of ParseError = -32700"
| "code_of InvalidRequest = -32600"
| "code_of MethodNotFound = -32601"
| "code_of InvalidParams = -32602"
| "code_of InternalError = -32603"

datatype thrown =
    McpError ErrorCode string
  | OtherError string
  | NonError string

text \<open>\<open>error instanceof Error ? error.message : String(error)\<close> (the tool handlers).\<close>

fun message_or_String :: "thrown \<Rightarrow> string" where
  "message_or_String (McpError c m) = m"
| "message_or_String (OtherError m) = m"
| "message_or_String (NonError s) = s"

text \<open>
  \<open>v.k\<close> for a decoded JSON value \<open>v\<close>. Reading a property of \<open>null\<close> throws a
  \<open>TypeError\<close> (with the message V8 gives it; no theorem depends on the wording); an
  object gives its own property or \<open>undefined\<close>; the other shapes
  give \<open>undefined\<close> (this holds for the names read from a request body, \<open>method\<close> and
  \<open>id\<close>, which no prototype defines).
\<close>

fun get_prop :: "json \<Rightarrow> string \<Rightarrow> thrown + jsval" where
  "get_prop JNull k =
     Inl (OtherError (''Cannot read properties of null (reading '' @ [CHR 0x27] @ k @ [CHR 0x27] @ '')''))"
| "get_prop (JObj kvs) k = Inr (map_of kvs k)"
| "get_prop v k = Inr None"

text \<open>Truthiness: \<open>undefined\<close>, \<open>null\<close>, \<open>false\<close>, \<open>0\<close> and \<open>""\<close> are falsy.\<close>

fun truthy :: "jsval \<Rightarrow> bool" where
  "truthy None = False"
| "truthy (Some JNull) = False"
| "truthy (Some (JBool b)) = b"
| "truthy (Some (JNum n)) = (n \<noteq> 0)"
| "truthy (Some (JStr s)) = (s \<noteq> [])"
| "truthy (Some (JArr xs)) = True"
| "truthy (Some (JObj kvs)) = True"

text \<open>\<open>v || null\<close>, as a JSON value.\<close>

fun or_null :: "jsval \<Rightarrow> json" where
  "or_null None = JNull"
| "or_null (Some v) = (if truthy (Some v) then v else JNull)"

section \<open>The engine and the network, as parameters\<close>

text \<open>
  What the program takes from its environment is a parameter of the model: the
  conversions of ECMAScript on numbers, arrays and objects, \<open>JSON.stringify\<close>,
  \<open>URLSearchParams.prototype.toString\<close>, the URL test of the schema library, and the
  global \<open>fetch\<close> with the upstream service behind it.
\<close>

record http_request =
  req_url :: string
  req_method :: string
  req_headers :: "(string \<times> string) list"
  req_body :: "string option"

text \<open>
  A response of \<open>fetch\<close>: its status, its status text and what \<open>response.json()\<close>
  gives. \<open>response.ok\<close> is not a field of its own: it says that the status is in the
  range 200 to 299.
\<close>

record http_response =
  status :: nat
  statusText :: string
  json_result :: "thrown + json"

definition ok :: "http_response \<Rightarrow> bool" where
  "ok response = (200 \<le> status response \<and> status response \<le> 299)"

record runtime =
  js_ToString :: "json \<Rightarrow> thrown + string"
  js_toString_method :: "json \<Rightarrow> thrown + string"
  JSON_stringify :: "json \<Rightarrow> string"
  JSON_stringify_2 :: "json \<Rightarrow> string"
  URLSearchParams_toString :: "(string \<times> string) list \<Rightarrow> string"
  is_url :: "string \<Rightarrow> bool"
  global_fetch :: "http_request \<Rightarrow> thrown + http_response"

text \<open>
  The string a template literal \<open>`${v}`\<close> inserts. \<open>undefined\<close>, \<open>null\<close>, booleans and
  strings are converted here; numbers, arrays and objects by the engine (where an object
  with an own \<open>toString\<close> property makes the conversion throw).
\<close>

fun template :: "runtime \<Rightarrow> jsval \<Rightarrow> thrown + string" where
  "template rt None = Inr ''undefined''"
| "template rt (Some JNull) = Inr ''null''"
| "template rt (Some (JBool b)) = Inr (if b then ''true'' else ''false'')"
| "template rt (Some (JStr s)) = Inr s"
| "template rt (Some v) = js_ToString rt v"

section \<open>mock-sdk: the server and its dispatcher\<close>

datatype request_schema =
    ListToolsRequestSchema
  | CallToolRequestSchema
  | ListResourcesRequestSchema
  | ListResourceTemplatesRequestSchema
  | ReadResourceRequestSchema

text \<open>
  The calls a claim speaks about are recorded in a trace: an entry into
  \<open>Server.handleRequest\<close> (the dispatcher) and a call of a tool's handler (the tool's
  name and the argument object).
\<close>

datatype effect =
    Dispatched request_schema json
  | HandlerCalled string "(string \<times> json) list"

text \<open>
  The fields of \<open>Server\<close>: \<open>serverInfo\<close> and \<open>options.capabilities\<close>. There is no
  field for registered tools.
\<close>

record Server =
  serverInfo_name :: string
  serverInfo_version :: string
  capabilities_resources :: json
  capabilities_tools :: json

text \<open>
  \<open>handleRequest(schema, requestBody)\<close> returns
  \<open>{jsonrpc: '2.0', id: requestBody.id || null, result: {}}\<close>. It reads neither
  \<open>schema\<close> nor any other property of the body, and calls nothing.
\<close>

definition handleRequest ::
  "Server \<Rightarrow> request_schema \<Rightarrow> json \<Rightarrow> (thrown + json) \<times> effect list" where
  "handleRequest srv schema requestBody =
     (case get_prop requestBody ''id'' of
        Inl e \<Rightarrow> Inl e
      | Inr idv \<Rightarrow>
          Inr (JObj [(''jsonrpc'', JStr ''2.0''), (''id'', or_null idv), (''result'', JObj [])]),
      [Dispatched schema requestBody])"

section \<open>index.ts: the transport shell\<close>

text \<open>
  The inbound request: its HTTP method (\<open>request.method\<close>, here \<open>http_method\<close>), URL
  and headers, and what \<open>request.json()\<close> gives (the decoded body, or the error thrown
  when the body is not JSON).
\<close>

record request =
  http_method :: string
  url :: string
  headers :: "(string \<times> string) list"
  body_json :: "thrown + json"

text \<open>
  The body of a response: a text, the serialisation \<open>JSON.stringify(v)\<close> of a value
  \<open>v\<close>, or the event stream that \<open>handleSseConnection\<close> feeds.
\<close>

datatype body = BodyText string | BodyJson json | BodyEventStream

record response =
  resp_status :: nat
  resp_headers :: "(string \<times> string) list"
  resp_body :: body

text \<open>The \<open>try\<close> block of the POST branch: decode, route on \<open>requestBody.method\<close>.\<close>

definition route :: "runtime \<Rightarrow> Server \<Rightarrow> request \<Rightarrow> (thrown + json) \<times> effect list" where
  "route rt srv rq =
     (case body_json rq of
        Inl e \<Rightarrow> (Inl e, [])
      | Inr requestBody \<Rightarrow>
          (case get_prop requestBody ''method'' of
             Inl e \<Rightarrow> (Inl e, [])
           | Inr m \<Rightarrow>
               if m = Some (JStr ''list_tools'') then
                 handleRequest srv ListToolsRequestSchema requestBody
               else if m = Some (JStr ''call_tool'') then
                 handleRequest srv CallToolRequestSchema requestBody
               else if m = Some (JStr ''list_resources'') then
                 handleRequest srv ListResourcesRequestSchema requestBody
               else if m = Some (JStr ''list_resource_templates'') then
                 handleRequest srv ListResourceTemplatesRequestSchema requestBody
               else if m = Some (JStr ''read_resource'') then
                 handleRequest srv ReadResourceRequestSchema requestBody
               else
                 (case template rt m of
                    Inl e \<Rightarrow> (Inl e, [])
                  | Inr s \<Rightarrow> (Inl (McpError MethodNotFound (''Unknown method: '' @ s)), []))))"

text \<open>The \<open>catch\<close> block: the error response, always with \<open>id: null\<close>.\<close>

definition errorResponse :: "thrown \<Rightarrow> json" where
  "errorResponse error =
     JObj [(''jsonrpc'', JStr ''2.0''),
           (''error'', JObj
              [(''code'', JNum (of_int (case error of McpError c m \<Rightarrow> code_of c
                                          | _ \<Rightarrow> code_of InternalError))),
               (''message'', JStr (case error of McpError c m \<Rightarrow> m
                                     | OtherError m \<Rightarrow> m
                                     | NonError s \<Rightarrow> ''Unknown error''))]),
           (''id'', JNull)]"

text \<open>
  \<open>SseHandler.fetch\<close>. A response built without a \<open>status\<close> has status 200. The
  authorisation check is commented out in the source, so the headers of the request decide
  nothing.
\<close>

definition SseHandler_fetch :: "runtime \<Rightarrow> Server \<Rightarrow> request \<Rightarrow> response \<times> effect list" where
  "SseHandler_fetch rt srv rq =
     (if http_method rq = ''GET'' then
        (\<lparr>resp_status = 200,
          resp_headers = [(''Content-Type'', ''text/event-stream''),
                          (''Cache-Control'', ''no-cache''),
                          (''Connection'', ''keep-alive'')],
          resp_body = BodyEventStream\<rparr>, [])
      else if http_method rq = ''POST'' then
        (case route rt srv rq of
           (Inr responseBody, fx) \<Rightarrow>
             (\<lparr>resp_status = 200,
               resp_headers = [(''Content-Type'', ''application/json'')],
               resp_body = BodyJson responseBody\<rparr>, fx)
         | (Inl error, fx) \<Rightarrow>
             (\<lparr>resp_status = 500,
               resp_headers = [(''Content-Type'', ''application/json'')],
               resp_body = BodyJson (errorResponse error)\<rparr>, fx))
      else
        (\<lparr>resp_status = 405, resp_headers = [], resp_body = BodyText ''Method not allowed''\<rparr>,
         []))"

section \<open>types.ts: the result of a tool\<close>

text \<open>
  A content block \<open>{type, text}\<close>. Both names are keywords here, so the fields carry
  a prime.
\<close>

record content_block =
  type' :: string
  text' :: string

text \<open>\<open>isError\<close> is optional: \<open>None\<close> where the object literal has no such property.\<close>

record ToolResult =
  content :: "content_block list"
  isError :: "bool option"

section \<open>The input schemas\<close>

text \<open>
  The schema library (zod) is not part of the repository; the schemas the tools declare
  are built from the few combinators below, whose acceptance test follows the library:
  a string with length checks and the URL check, a number with \<open>int\<close>, \<open>min\<close> and
  \<open>max\<close>, an enumeration of strings, \<open>any\<close>, \<open>optional\<close> and \<open>default\<close> (both
  accept \<open>undefined\<close>), an array with a minimal length, a record (an object whose
  values all pass) and an object (each declared key passes; other keys are ignored).
\<close>

datatype string_check = MinLength nat | ExactLength nat | Url

datatype number_check = IsInt | Min rat | Max rat

datatype schema =
    ZString "string_check list"
  | ZNumber "number_check list"
  | ZEnum "string list"
  | ZAny
  | ZOptional schema
  | ZDefault schema json
  | ZArray schema nat
  | ZRecord schema
  | ZObject "(string \<times> schema) list"

fun string_check_ok :: "runtime \<Rightarrow> string \<Rightarrow> string_check \<Rightarrow> bool" where
  "string_check_ok rt s (MinLength n) = (n \<le> length s)"
| "string_check_ok rt s (ExactLength n) = (length s = n)"
| "string_check_ok rt s Url = is_url rt s"

fun number_check_ok :: "rat \<Rightarrow> number_check \<Rightarrow> bool" where
  "number_check_ok r IsInt = (of_int \<lfloor>r\<rfloor> = r)"
| "number_check_ok r (Min m) = (m \<le> r)"
| "number_check_ok r (Max m) = (r \<le> m)"

fun accepts :: "runtime \<Rightarrow> schema \<Rightarrow> jsval \<Rightarrow> bool" where
  "accepts rt (ZString cs) v =
     (case v of Some (JStr s) \<Rightarrow> list_all (string_check_ok rt s) cs | _ \<Rightarrow> False)"
| "accepts rt (ZNumber cs) v =
     (case v of Some (JNum r) \<Rightarrow> list_all (number_check_ok r) cs | _ \<Rightarrow> False)"
| "accepts rt (ZEnum names) v =
     (case v of Some (JStr s) \<Rightarrow> s \<in> set names | _ \<Rightarrow> False)"
| "accepts rt ZAny v = True"
| "accepts rt (ZOptional s) v = (v = None \<or> accepts rt s v)"
| "accepts rt (ZDefault s d) v = (v = None \<or> accepts rt s v)"
| "accepts rt (ZArray s n) v =
     (case v of Some (JArr xs) \<Rightarrow> n \<le> length xs \<and> list_all (\<lambda>x. accepts rt s (Some x)) xs
      | _ \<Rightarrow> False)"
| "accepts rt (ZRecord s) v =
     (case v of Some (JObj kvs) \<Rightarrow> list_all (\<lambda>kv. accepts rt s (Some (snd kv))) kvs
      | _ \<Rightarrow> False)"
| "accepts rt (ZObject shape) v =
     (case v of
        Some (JObj kvs) \<Rightarrow> list_all (\<lambda>f. accepts rt (snd f) (map_of kvs (fst f))) shape
      | _ \<Rightarrow> False)"

section \<open>The tools\<close>

text \<open>
  A tool definition: its description, its input schema and its handler. Every input
  schema is an object schema, so a validated argument is an object: a handler takes the
  list of its properties, and \<open>args.k\<close> is \<open>map_of args k\<close>. A handler is
  \<open>async\<close>: it ends with a result (\<open>Inr\<close>) or with a rejection (\<open>Inl\<close>).
\<close>

record ToolDefinition =
  description :: string
  inputSchema :: schema
  handler :: "runtime \<Rightarrow> (string \<times> json) list \<Rightarrow> thrown + ToolResult"

text \<open>\<open>v || d\<close> for a string \<open>d\<close>.\<close>

definition or_string :: "jsval \<Rightarrow> string \<Rightarrow> jsval" where
  "or_string v d = (if truthy v then v else Some (JStr d))"

subsection \<open>puppeteer.ts: the browser stubs\<close>

definition NavigateSchema :: schema where
  "NavigateSchema = ZObject [(''url'', ZString [Url])]"

definition ScreenshotSchema :: schema where
  "ScreenshotSchema = ZObject [(''selector'', ZOptional (ZString []))]"

definition GetTextSchema :: schema where
  "GetTextSchema = ZObject [(''selector'', ZString [])]"

definition ClickSchema :: schema where
  "ClickSchema = ZObject [(''selector'', ZString [])]"

definition TypeSchema :: schema where
  "TypeSchema = ZObject [(''selector'', ZString []), (''text'', ZString [])]"

definition puppeteer_navigate_handler ::
  "runtime \<Rightarrow> (string \<times> json) list \<Rightarrow> thrown + ToolResult" where
  "puppeteer_navigate_handler rt args =
     (case template rt (map_of args ''url'') of
        Inl e \<Rightarrow> Inl e
      | Inr u \<Rightarrow>
          Inr \<lparr>content = [\<lparr>type' = ''text'', text' = ''Successfully navigated to '' @ u\<rparr>],
               isError = None\<rparr>)"

definition puppeteer_screenshot_handler ::
  "runtime \<Rightarrow> (string \<times> json) list \<Rightarrow> thrown + ToolResult" where
  "puppeteer_screenshot_handler rt args =
     (let selector = or_string (map_of args ''selector'') ''body'' in
      case template rt selector of
        Inl e \<Rightarrow> Inl e
      | Inr s \<Rightarrow>
          Inr \<lparr>content = [\<lparr>type' = ''text'', text' = ''Screenshot taken of selector: '' @ s\<rparr>],
               isError = None\<rparr>)"

definition puppeteer_get_text_handler ::
  "runtime \<Rightarrow> (string \<times> json) list \<Rightarrow> thrown + ToolResult" where
  "puppeteer_get_text_handler rt args =
     (case template rt (map_of args ''selector'') of
        Inl e \<Rightarrow> Inl e
      | Inr s \<Rightarrow>
          Inr \<lparr>content =
                 [\<lparr>type' = ''text'',
                   text' = ''Text content from '' @ s @ '': [Simulated content for demonstration]''\<rparr>],
               isError = None\<rparr>)"

definition puppeteer_click_handler ::
  "runtime \<Rightarrow> (string \<times> json) list \<Rightarrow> thrown + ToolResult" where
  "puppeteer_click_handler rt args =
     (case template rt (map_of args ''selector'') of
        Inl e \<Rightarrow> Inl e
      | Inr s \<Rightarrow>
          Inr \<lparr>content =
                 [\<lparr>type' = ''text'', text' = ''Clicked on element with selector: '' @ s\<rparr>],
               isError = None\<rparr>)"

definition puppeteer_type_handler ::
  "runtime \<Rightarrow> (string \<times> json) list \<Rightarrow> thrown + ToolResult" where
  "puppeteer_type_handler rt args =
     (case template rt (map_of args ''text'') of
        Inl e \<Rightarrow> Inl e
      | Inr t \<Rightarrow>
          (case template rt (map_of args ''selector'') of
             Inl e \<Rightarrow> Inl e
           | Inr s \<Rightarrow>
               Inr \<lparr>content =
                      [\<lparr>type' = ''text'',
                        text' = ''Typed '' @ [CHR 0x22] @ t @ [CHR 0x22]
                                @ '' into element with selector: '' @ s\<rparr>],
                    isError = None\<rparr>))"

definition createPuppeteerTools :: "(string \<times> ToolDefinition) list" where
  "createPuppeteerTools =
     [(''puppeteer_navigate'',
       \<lparr>description = ''Navigate to a URL in a browser'',
        inputSchema = NavigateSchema, handler = puppeteer_navigate_handler\<rparr>),
      (''puppeteer_screenshot'',
       \<lparr>description = ''Take a screenshot of the current page or a specific element'',
        inputSchema = ScreenshotSchema, handler = puppeteer_screenshot_handler\<rparr>),
      (''puppeteer_get_text'',
       \<lparr>description = ''Get text content from an element on the page'',
        inputSchema = GetTextSchema, handler = puppeteer_get_text_handler\<rparr>),
      (''puppeteer_click'',
       \<lparr>description = ''Click on an element on the page'',
        inputSchema = ClickSchema, handler = puppeteer_click_handler\<rparr>),
      (''puppeteer_type'',
       \<lparr>description = ''Type text into an input field'',
        inputSchema = TypeSchema, handler = puppeteer_type_handler\<rparr>)]"

subsection \<open>What the handlers that call an upstream service share\<close>

text \<open>
  \<open>self\<close>, the global scope the tool tables read their configuration from: absent
  (\<open>typeof self === 'undefined'\<close>) or a map from names to values.
\<close>

type_synonym global_scope = "(string \<rightharpoonup> string) option"

text \<open>Sequencing of steps that may throw: the first \<open>throw\<close> ends the \<open>try\<close> block.\<close>

definition and_then :: "thrown + 'a \<Rightarrow> ('a \<Rightarrow> thrown + 'b) \<Rightarrow> thrown + 'b" where
  "and_then m f = (case m of Inl e \<Rightarrow> Inl e | Inr x \<Rightarrow> f x)"

text \<open>The decimal digits of a natural number (\<open>response.status\<close> in a template).\<close>

fun show_nat :: "nat \<Rightarrow> string" where
  "show_nat n =
     (if n < 10 then [''0123456789'' ! n]
      else show_nat (n div 10) @ [''0123456789'' ! (n mod 10)])"

declare show_nat.simps [simp del]

text \<open>
  \<open>v?.toString()\<close>: \<open>undefined\<close> for \<open>undefined\<close> and \<open>null\<close>, else the result of the
  method \<open>toString\<close> of the value (the engine's, for numbers, arrays and objects).
\<close>

fun optional_toString :: "runtime \<Rightarrow> jsval \<Rightarrow> thrown + string option" where
  "optional_toString rt None = Inr None"
| "optional_toString rt (Some JNull) = Inr None"
| "optional_toString rt (Some (JBool b)) = Inr (Some (if b then ''true'' else ''false''))"
| "optional_toString rt (Some (JStr s)) = Inr (Some s)"
| "optional_toString rt (Some v) =
     (case js_toString_method rt v of Inl e \<Rightarrow> Inl e | Inr s \<Rightarrow> Inr (Some s))"

text \<open>\<open>if (v) searchParams.append(k, v)\<close>; the value is converted to a string.\<close>

definition append_if ::
  "runtime \<Rightarrow> string \<Rightarrow> jsval \<Rightarrow> (string \<times> string) list \<Rightarrow> thrown + (string \<times> string) list" where
  "append_if rt k v ps =
     (if truthy v then and_then (template rt v) (\<lambda>s. Inr (ps @ [(k, s)])) else Inr ps)"

text \<open>\<open>if (v) url += `<prefix>${v}`\<close>.\<close>

definition extend_if :: "runtime \<Rightarrow> string \<Rightarrow> jsval \<Rightarrow> string \<Rightarrow> thrown + string" where
  "extend_if rt prefix v u =
     (if truthy v then and_then (template rt v) (\<lambda>s. Inr (u @ prefix @ s)) else Inr u)"

text \<open>
  The text the eight handlers share after they have built their request: the call of
  \<open>fetch\<close>, the \<open>throw\<close> on a response that is not \<open>ok\<close>, the decoding of the body and
  the result with the one text block \<open>JSON.stringify(data, null, 2)\<close>. Only the name of
  the service in the error message differs.
\<close>

definition fetch_and_wrap :: "string \<Rightarrow> runtime \<Rightarrow> http_request \<Rightarrow> thrown + ToolResult" where
  "fetch_and_wrap service rt rq =
     and_then (global_fetch rt rq) (\<lambda>response.
       if \<not> ok response then
         Inl (OtherError (service @ '' API error: '' @ show_nat (status response)
                          @ '' '' @ statusText response))
       else
         and_then (json_result response) (\<lambda>data.
           Inr \<lparr>content = [\<lparr>type' = ''text'', text' = JSON_stringify_2 rt data\<rparr>],
                isError = None\<rparr>))"

subsection \<open>brave-search.ts\<close>

definition BRAVE_SEARCH_API :: string where
  "BRAVE_SEARCH_API = ''https://api.search.brave.com/res/v1''"

text \<open>\<open>apiHeaders\<close> once \<open>createBraveSearchTools\<close> has set the token from \<open>self\<close>.\<close>

definition apiHeaders :: "global_scope \<Rightarrow> (string \<times> string) list" where
  "apiHeaders self =
     [(''Accept'', ''application/json''),
      (''Content-Type'', ''application/json''),
      (''X-Subscription-Token'',
       (case self of
          None \<Rightarrow> []
        | Some g \<Rightarrow> (case g ''BRAVE_API_KEY'' of None \<Rightarrow> [] | Some k \<Rightarrow> k)))]"

definition WebSearchSchema :: schema where
  "WebSearchSchema =
     ZObject [(''query'', ZString [MinLength 1]),
              (''count'', ZOptional (ZNumber [IsInt, Min 1, Max 20])),
              (''country'', ZOptional (ZString [ExactLength 2])),
              (''language'', ZOptional (ZString [])),
              (''safesearch'', ZOptional (ZEnum [''strict'', ''moderate'', ''off'']))]"

definition NewsSearchSchema :: schema where
  "NewsSearchSchema =
     ZObject [(''query'', ZString [MinLength 1]),
              (''count'', ZOptional (ZNumber [IsInt, Min 1, Max 20])),
              (''freshness'', ZOptional (ZEnum [''day'', ''week'', ''month'', ''any'']))]"

definition ImageSearchSchema :: schema where
  "ImageSearchSchema =
     ZObject [(''query'', ZString [MinLength 1]),
              (''count'', ZOptional (ZNumber [IsInt, Min 1, Max 20])),
              (''safesearch'', ZOptional (ZEnum [''strict'', ''moderate'', ''off'']))]"

text \<open>\<open>args.count?.toString() || "10"\<close>.\<close>

definition count_or_10 :: "runtime \<Rightarrow> (string \<times> json) list \<Rightarrow> thrown + string" where
  "count_or_10 rt args =
     and_then (optional_toString rt (map_of args ''count'')) (\<lambda>c.
       Inr (case c of None \<Rightarrow> ''10'' | Some s \<Rightarrow> if s \<noteq> [] then s else ''10''))"

text \<open>The request each handler hands to \<open>fetch\<close>, or what is thrown before.\<close>

definition brave_web_search_request ::
  "(string \<times> string) list \<Rightarrow> runtime \<Rightarrow> (string \<times> json) list \<Rightarrow> thrown + http_request" where
  "brave_web_search_request hdrs rt args =
     and_then (count_or_10 rt args) (\<lambda>c.
     and_then (template rt (map_of args ''query'')) (\<lambda>q.
     and_then (append_if rt ''country'' (map_of args ''country'') [(''q'', q), (''count'', c)])
       (\<lambda>p1.
     and_then (append_if rt ''language'' (map_of args ''language'') p1) (\<lambda>p2.
     and_then (append_if rt ''safesearch'' (map_of args ''safesearch'') p2) (\<lambda>searchParams.
       Inr \<lparr>req_url = BRAVE_SEARCH_API @ ''/web/search?'' @ URLSearchParams_toString rt searchParams,
            req_method = ''GET'', req_headers = hdrs, req_body = None\<rparr>)))))"

definition brave_news_search_request ::
  "(string \<times> string) list \<Rightarrow> runtime \<Rightarrow> (string \<times> json) list \<Rightarrow> thrown + http_request" where
  "brave_news_search_request hdrs rt args =
     and_then (count_or_10 rt args) (\<lambda>c.
     and_then (template rt (map_of args ''query'')) (\<lambda>q.
     and_then (append_if rt ''freshness'' (map_of args ''freshness'')
                 [(''q'', q), (''count'', c), (''search_type'', ''news'')]) (\<lambda>searchParams.
       Inr \<lparr>req_url = BRAVE_SEARCH_API @ ''/news/search?'' @ URLSearchParams_toString rt searchParams,
            req_method = ''GET'', req_headers = hdrs, req_body = None\<rparr>)))"

definition brave_image_search_request ::
  "(string \<times> string) list \<Rightarrow> runtime \<Rightarrow> (string \<times> json) list \<Rightarrow> thrown + http_request" where
  "brave_image_search_request hdrs rt args =
     and_then (count_or_10 rt args) (\<lambda>c.
     and_then (template rt (map_of args ''query'')) (\<lambda>q.
     and_then (append_if rt ''safesearch'' (map_of args ''safesearch'')
                 [(''q'', q), (''count'', c), (''search_type'', ''images'')]) (\<lambda>searchParams.
       Inr \<lparr>req_url = BRAVE_SEARCH_API @ ''/images/search?''
                      @ URLSearchParams_toString rt searchParams,
            req_method = ''GET'', req_headers = hdrs, req_body = None\<rparr>)))"

text \<open>The handlers: the \<open>try\<close> block, and the \<open>catch\<close> that turns what was thrown into a result.\<close>

definition brave_web_search_handler ::
  "(string \<times> string) list \<Rightarrow> runtime \<Rightarrow> (string \<times> json) list \<Rightarrow> thrown + ToolResult" where
  "brave_web_search_handler hdrs rt args =
     (case and_then (brave_web_search_request hdrs rt args) (fetch_and_wrap ''Brave Search'' rt) of
        Inr r \<Rightarrow> Inr r
      | Inl error \<Rightarrow>
          Inr \<lparr>content = [\<lparr>type' = ''text'',
                          text' = ''Error in brave_web_search: '' @ message_or_String error\<rparr>],
               isError = Some True\<rparr>)"

definition brave_news_search_handler ::
  "(string \<times> string) list \<Rightarrow> runtime \<Rightarrow> (string \<times> json) list \<Rightarrow> thrown + ToolResult" where
  "brave_news_search_handler hdrs rt args =
     (case and_then (brave_news_search_request hdrs rt args) (fetch_and_wrap ''Brave Search'' rt) of
        Inr r \<Rightarrow> Inr r
      | Inl error \<Rightarrow>
          Inr \<lparr>content = [\<lparr>type' = ''text'',
                          text' = ''Error in brave_news_search: '' @ message_or_String error\<rparr>],
               isError = Some True\<rparr>)"

definition brave_image_search_handler ::
  "(string \<times> string) list \<Rightarrow> runtime \<Rightarrow> (string \<times> json) list \<Rightarrow> thrown + ToolResult" where
  "brave_image_search_handler hdrs rt args =
     (case and_then (brave_image_search_request hdrs rt args) (fetch_and_wrap ''Brave Search'' rt) of
        Inr r \<Rightarrow> Inr r
      | Inl error \<Rightarrow>
          Inr \<lparr>content = [\<lparr>type' = ''text'',
                          text' = ''Error in brave_image_search: '' @ message_or_String error\<rparr>],
               isError = Some True\<rparr>)"

definition createBraveSearchTools :: "global_scope \<Rightarrow> (string \<times> ToolDefinition) list" where
  "createBraveSearchTools self =
     [(''brave_web_search'',
       \<lparr>description = ''Search the web using Brave Search'',
        inputSchema = WebSearchSchema, handler = brave_web_search_handler (apiHeaders self)\<rparr>),
      (''brave_news_search'',
       \<lparr>description = ''Search for news articles using Brave Search'',
        inputSchema = NewsSearchSchema, handler = brave_news_search_handler (apiHeaders self)\<rparr>),
      (''brave_image_search'',
       \<lparr>description = ''Search for images using Brave Search'',
        inputSchema = ImageSearchSchema, handler = brave_image_search_handler (apiHeaders self)\<rparr>)]"

subsection \<open>supabase.ts\<close>

text \<open>
  The module variables \<open>SUPABASE_URL\<close> and \<open>SUPABASE_API_KEY\<close> once
  \<open>createSupabaseTools\<close> has read \<open>self\<close>: both stay empty unless \<open>self\<close> has the
  project reference and the service role key.
\<close>

record supabase_config =
  SUPABASE_URL :: string
  SUPABASE_API_KEY :: string

definition supabase_configuration :: "global_scope \<Rightarrow> supabase_config" where
  "supabase_configuration self =
     (case self of
        None \<Rightarrow> \<lparr>SUPABASE_URL = [], SUPABASE_API_KEY = []\<rparr>
      | Some env \<Rightarrow>
          (case env ''SUPABASE_PROJECT_REF'' of
             None \<Rightarrow> \<lparr>SUPABASE_URL = [], SUPABASE_API_KEY = []\<rparr>
           | Some ref \<Rightarrow>
               (case env ''SUPABASE_SERVICE_ROLE_KEY'' of
                  None \<Rightarrow> \<lparr>SUPABASE_URL = [], SUPABASE_API_KEY = []\<rparr>
                | Some key \<Rightarrow>
                    \<lparr>SUPABASE_URL = ''https://'' @ ref @ ''.supabase.co'',
                     SUPABASE_API_KEY = key\<rparr>)))"

definition QueryTableSchema :: schema where
  "QueryTableSchema =
     ZObject [(''table'', ZString [MinLength 1]),
              (''select'', ZDefault (ZString []) (JStr ''*'')),
              (''limit'', ZOptional (ZNumber [IsInt, Min 1, Max 1000])),
              (''order'', ZOptional (ZString [])),
              (''filter'', ZOptional (ZString []))]"

definition InsertRowsSchema :: schema where
  "InsertRowsSchema =
     ZObject [(''table'', ZString [MinLength 1]),
              (''rows'', ZArray (ZRecord ZAny) 1)]"

definition UpdateRowsSchema :: schema where
  "UpdateRowsSchema =
     ZObject [(''table'', ZString [MinLength 1]),
              (''updates'', ZRecord ZAny),
              (''filter'', ZString [MinLength 1])]"

definition DeleteRowsSchema :: schema where
  "DeleteRowsSchema =
     ZObject [(''table'', ZString [MinLength 1]),
              (''filter'', ZString [MinLength 1])]"

definition ExecuteStoredProcedureSchema :: schema where
  "ExecuteStoredProcedureSchema =
     ZObject [(''function'', ZString [MinLength 1]),
              (''params'', ZOptional (ZRecord ZAny))]"

text \<open>The headers of every call, and those of the calls that ask for the rows back.\<close>

definition supabase_headers :: "supabase_config \<Rightarrow> (string \<times> string) list" where
  "supabase_headers cfg =
     [(''apikey'', SUPABASE_API_KEY cfg),
      (''Authorization'', ''Bearer '' @ SUPABASE_API_KEY cfg),
      (''Content-Type'', ''application/json'')]"

definition supabase_headers_prefer :: "supabase_config \<Rightarrow> (string \<times> string) list" where
  "supabase_headers_prefer cfg =
     [(''apikey'', SUPABASE_API_KEY cfg),
      (''Authorization'', ''Bearer '' @ SUPABASE_API_KEY cfg),
      (''Content-Type'', ''application/json''),
      (''Prefer'', ''return=representation'')]"

text \<open>\<open>JSON.stringify(v)\<close> of a value that may be \<open>undefined\<close> (then the result is).\<close>

definition stringify_value :: "runtime \<Rightarrow> jsval \<Rightarrow> string option" where
  "stringify_value rt v = map_option (JSON_stringify rt) v"

definition supabase_query_table_request ::
  "supabase_config \<Rightarrow> runtime \<Rightarrow> (string \<times> json) list \<Rightarrow> thrown + http_request" where
  "supabase_query_table_request cfg rt args =
     and_then (template rt (map_of args ''table'')) (\<lambda>table.
     and_then (template rt (map_of args ''select'')) (\<lambda>select.
     and_then (extend_if rt ''&limit='' (map_of args ''limit'')
                 (SUPABASE_URL cfg @ ''/rest/v1/'' @ table @ ''?select='' @ select)) (\<lambda>u1.
     and_then (extend_if rt ''&order='' (map_of args ''order'') u1) (\<lambda>u2.
     and_then (extend_if rt ''&'' (map_of args ''filter'') u2) (\<lambda>u3.
       Inr \<lparr>req_url = u3, req_method = ''GET'', req_headers = supabase_headers cfg,
            req_body = None\<rparr>)))))"

definition supabase_insert_rows_request ::
  "supabase_config \<Rightarrow> runtime \<Rightarrow> (string \<times> json) list \<Rightarrow> thrown + http_request" where
  "supabase_insert_rows_request cfg rt args =
     and_then (template rt (map_of args ''table'')) (\<lambda>table.
       Inr \<lparr>req_url = SUPABASE_URL cfg @ ''/rest/v1/'' @ table, req_method = ''POST'',
            req_headers = supabase_headers_prefer cfg,
            req_body = stringify_value rt (map_of args ''rows'')\<rparr>)"

definition supabase_update_rows_request ::
  "supabase_config \<Rightarrow> runtime \<Rightarrow> (string \<times> json) list \<Rightarrow> thrown + http_request" where
  "supabase_update_rows_request cfg rt args =
     and_then (template rt (map_of args ''table'')) (\<lambda>table.
     and_then (template rt (map_of args ''filter'')) (\<lambda>filter.
       Inr \<lparr>req_url = SUPABASE_URL cfg @ ''/rest/v1/'' @ table @ ''?'' @ filter,
            req_method = ''PATCH'', req_headers = supabase_headers_prefer cfg,
            req_body = stringify_value rt (map_of args ''updates'')\<rparr>))"

definition supabase_delete_rows_request ::
  "supabase_config \<Rightarrow> runtime \<Rightarrow> (string \<times> json) list \<Rightarrow> thrown + http_request" where
  "supabase_delete_rows_request cfg rt args =
     and_then (template rt (map_of args ''table'')) (\<lambda>table.
     and_then (template rt (map_of args ''filter'')) (\<lambda>filter.
       Inr \<lparr>req_url = SUPABASE_URL cfg @ ''/rest/v1/'' @ table @ ''?'' @ filter,
            req_method = ''DELETE'', req_headers = supabase_headers_prefer cfg,
            req_body = None\<rparr>))"

definition supabase_execute_function_request ::
  "supabase_config \<Rightarrow> runtime \<Rightarrow> (string \<times> json) list \<Rightarrow> thrown + http_request" where
  "supabase_execute_function_request cfg rt args =
     and_then (template rt (map_of args ''function'')) (\<lambda>f.
       Inr \<lparr>req_url = SUPABASE_URL cfg @ ''/rest/v1/rpc/'' @ f, req_method = ''POST'',
            req_headers = supabase_headers cfg,
            req_body = (if truthy (map_of args ''params'')
                        then stringify_value rt (map_of args ''params'') else None)\<rparr>)"

definition supabase_query_table_handler ::
  "supabase_config \<Rightarrow> runtime \<Rightarrow> (string \<times> json) list \<Rightarrow> thrown + ToolResult" where
  "supabase_query_table_handler cfg rt args =
     (case and_then (supabase_query_table_request cfg rt args) (fetch_and_wrap ''Supabase'' rt) of
        Inr r \<Rightarrow> Inr r
      | Inl error \<Rightarrow>
          Inr \<lparr>content = [\<lparr>type' = ''text'',
                          text' = ''Error in supabase_query_table: '' @ message_or_String error\<rparr>],
               isError = Some True\<rparr>)"

definition supabase_insert_rows_handler ::
  "supabase_config \<Rightarrow> runtime \<Rightarrow> (string \<times> json) list \<Rightarrow> thrown + ToolResult" where
  "supabase_insert_rows_handler cfg rt args =
     (case and_then (supabase_insert_rows_request cfg rt args) (fetch_and_wrap ''Supabase'' rt) of
        Inr r \<Rightarrow> Inr r
      | Inl error \<Rightarrow>
          Inr \<lparr>content = [\<lparr>type' = ''text'',
                          text' = ''Error in supabase_insert_rows: '' @ message_or_String error\<rparr>],
               isError = Some True\<rparr>)"

definition supabase_update_rows_handler ::
  "supabase_config \<Rightarrow> runtime \<Rightarrow> (string \<times> json) list \<Rightarrow> thrown + ToolResult" where
  "supabase_update_rows_handler cfg rt args =
     (case and_then (supabase_update_rows_request cfg rt args) (fetch_and_wrap ''Supabase'' rt) of
        Inr r \<Rightarrow> Inr r
      | Inl error \<Rightarrow>
          Inr \<lparr>content = [\<lparr>type' = ''text'',
                          text' = ''Error in supabase_update_rows: '' @ message_or_String error\<rparr>],
               isError = Some True\<rparr>)"

definition supabase_delete_rows_handler ::
  "supabase_config \<Rightarrow> runtime \<Rightarrow> (string \<times> json) list \<Rightarrow> thrown + ToolResult" where
  "supabase_delete_rows_handler cfg rt args =
     (case and_then (supabase_delete_rows_request cfg rt args) (fetch_and_wrap ''Supabase'' rt) of
        Inr r \<Rightarrow> Inr r
      | Inl error \<Rightarrow>
          Inr \<lparr>content = [\<lparr>type' = ''text'',
                          text' = ''Error in supabase_delete_rows: '' @ message_or_String error\<rparr>],
               isError = Some True\<rparr>)"

definition supabase_execute_function_handler ::
  "supabase_config \<Rightarrow> runtime \<Rightarrow> (string \<times> json) list \<Rightarrow> thrown + ToolResult" where
  "supabase_execute_function_handler cfg rt args =
     (case and_then (supabase_execute_function_request cfg rt args)
             (fetch_and_wrap ''Supabase'' rt) of
        Inr r \<Rightarrow> Inr r
      | Inl error \<Rightarrow>
          Inr \<lparr>content = [\<lparr>type' = ''text'',
                          text' = ''Error in supabase_execute_function: ''
                                  @ message_or_String error\<rparr>],
               isError = Some True\<rparr>)"

definition createSupabaseTools :: "global_scope \<Rightarrow> (string \<times> ToolDefinition) list" where
  "createSupabaseTools self =
     (let cfg = supabase_configuration self in
      [(''supabase_query_table'',
        \<lparr>description = ''Query a table in Supabase database'',
         inputSchema = QueryTableSchema, handler = supabase_query_table_handler cfg\<rparr>),
       (''supabase_insert_rows'',
        \<lparr>description = ''Insert rows into a Supabase table'',
         inputSchema = InsertRowsSchema, handler = supabase_insert_rows_handler cfg\<rparr>),
       (''supabase_update_rows'',
        \<lparr>description = ''Update rows in a Supabase table'',
         inputSchema = UpdateRowsSchema, handler = supabase_update_rows_handler cfg\<rparr>),
       (''supabase_delete_rows'',
        \<lparr>description = ''Delete rows from a Supabase table'',
         inputSchema = DeleteRowsSchema, handler = supabase_delete_rows_handler cfg\<rparr>),
       (''supabase_execute_function'',
        \<lparr>description = ''Execute a stored procedure in Supabase database'',
         inputSchema = ExecuteStoredProcedureSchema,
         handler = supabase_execute_function_handler cfg\<rparr>)])"

subsection \<open>server.ts: building the server\<close>

text \<open>
  \<open>Server.registerTool\<close> writes a line to the console and stores nothing: the server it
  leaves is the server it found.
\<close>

definition registerTool ::
  "Server \<Rightarrow> string \<Rightarrow> string \<Rightarrow> (runtime \<Rightarrow> (string \<times> json) list \<Rightarrow> thrown + ToolResult)
     \<Rightarrow> schema \<Rightarrow> Server" where
  "registerTool srv name description' handler' inputSchema' = srv"

text \<open>The loop \<open>for (const [name, toolDef] of Object.entries(tools))\<close> of each setup function.\<close>

fun register_all :: "(string \<times> ToolDefinition) list \<Rightarrow> Server \<Rightarrow> Server" where
  "register_all [] srv = srv"
| "register_all ((name, toolDef) # rest) srv =
     register_all rest
       (registerTool srv name (description toolDef) (handler toolDef) (inputSchema toolDef))"

definition setupPuppeteerTools :: "Server \<Rightarrow> Server" where
  "setupPuppeteerTools srv = register_all createPuppeteerTools srv"

definition setupBraveSearchTools :: "global_scope \<Rightarrow> Server \<Rightarrow> Server" where
  "setupBraveSearchTools self srv = register_all (createBraveSearchTools self) srv"

definition setupSupabaseTools :: "global_scope \<Rightarrow> Server \<Rightarrow> Server" where
  "setupSupabaseTools self srv = register_all (createSupabaseTools self) srv"

definition createMcpServer :: "global_scope \<Rightarrow> Server" where
  "createMcpServer self =
     setupSupabaseTools self
       (setupBraveSearchTools self
          (setupPuppeteerTools
             \<lparr>serverInfo_name = ''cloudflare-mcp-server'', serverInfo_version = ''1.0.0'',
              capabilities_resources = JObj [], capabilities_tools = JObj []\<rparr>))"

text \<open>
  The tools handed to \<open>registerTool\<close> while the server is built, in the order of the
  calls: these are the registered tools the claims speak of.
\<close>

definition registered_tools :: "global_scope \<Rightarrow> (string \<times> ToolDefinition) list" where
  "registered_tools self =
     createPuppeteerTools @ createBraveSearchTools self @ createSupabaseTools self"

section \<open>index.ts: the notification channel\<close>

text \<open>
  \<open>handleSseConnection(controller, signal)\<close> runs when the stream of a GET response
  starts. The state of one connection: the chunks given to \<open>controller.enqueue\<close> so far
  (each the text handed to the encoder), the period in milliseconds of the timer set by
  \<open>setInterval\<close> (\<open>None\<close> when no timer is set), whether the listener for \<open>abort\<close> is
  installed, whether \<open>controller.close()\<close> has been called, and whether the signal has
  fired.
\<close>

record connection =
  enqueued :: "string list"
  interval :: "nat option"
  abort_listener :: bool
  closed :: bool
  aborted :: bool

text \<open>
  The connection when the stream starts: nothing is enqueued, no timer is set and no
  listener is installed. The signal is \<open>request.signal\<close>, which is older than the
  stream: it may have fired already (\<open>signal.aborted\<close>), and that is the argument.
\<close>

definition new_connection :: "bool \<Rightarrow> connection" where
  "new_connection signal_aborted =
     \<lparr>enqueued = [], interval = None, abort_listener = False, closed = False,
      aborted = signal_aborted\<rparr>"

definition connected_chunk :: string where
  "connected_chunk =
     ''event: connected'' @ [CHR 0x0A] @ ''data: {'' @ [CHR 0x22] @ ''serverId'' @ [CHR 0x22]
     @ '': '' @ [CHR 0x22] @ ''cloudflare-mcp-server'' @ [CHR 0x22] @ ''}'' @ [CHR 0x0A, CHR 0x0A]"

definition heartbeat_chunk :: string where
  "heartbeat_chunk = ''event: heartbeat'' @ [CHR 0x0A] @ ''data: {}'' @ [CHR 0x0A, CHR 0x0A]"

definition handleSseConnection :: "connection \<Rightarrow> connection" where
  "handleSseConnection c =
     c\<lparr>enqueued := enqueued c @ [connected_chunk],
       interval := Some 30000,
       abort_listener := True\<rparr>"

text \<open>
  After the call the engine drives the connection: the timer comes due and its callback
  runs (only while the timer is set), or the signal fires, once, and the listener runs:
  \<open>clearInterval(interval); controller.close()\<close>. A signal that has fired does not
  fire again, so a listener installed after the signal has fired never runs. A callback
  that found the controller closed would throw at \<open>enqueue\<close> and add nothing.
\<close>

datatype connection_event = TimerDue | AbortFired

fun deliver :: "connection \<Rightarrow> connection_event \<Rightarrow> connection" where
  "deliver c TimerDue =
     (case interval c of
        None \<Rightarrow> c
      | Some period \<Rightarrow>
          if closed c then c else c\<lparr>enqueued := enqueued c @ [heartbeat_chunk]\<rparr>)"
| "deliver c AbortFired =
     (if aborted c then c
      else if abort_listener c then c\<lparr>aborted := True, interval := None, closed := True\<rparr>
      else c\<lparr>aborted := True\<rparr>)"

text \<open>
  One connection from the start of its stream: the state of the signal at that moment,
  the call of \<open>handleSseConnection\<close>, then what the engine delivers.
\<close>

definition run_connection :: "bool \<Rightarrow> connection_event list \<Rightarrow> connection" where
  "run_connection signal_aborted evs =
     foldl deliver (handleSseConnection (new_connection signal_aborted)) evs"

text \<open>The text of one server-sent event with a name and a data line.\<close>

definition sse_event :: "string \<Rightarrow> string \<Rightarrow> string" where
  "sse_event name data = ''event: '' @ name @ [CHR 0x0A] @ ''data: '' @ data @ [CHR 0x0A, CHR 0x0A]"

section \<open>Requests and results as the claims name them\<close>

text \<open>The decoded body \<open>{method: "call_tool", params: {name: T, arguments: A}}\<close>.\<close>

definition call_tool_body :: "string \<Rightarrow> (string \<times> json) list \<Rightarrow> json" where
  "call_tool_body T A =
     JObj [(''method'', JStr ''call_tool''),
           (''params'', JObj [(''name'', JStr T), (''arguments'', JObj A)])]"

text \<open>A tool result as the JSON value it is: \<open>isError\<close> is present only when set.\<close>

definition ToolResult_json :: "ToolResult \<Rightarrow> json" where
  "ToolResult_json r =
     JObj ((''content'',
            JArr (map (\<lambda>b. JObj [(''type'', JStr (type' b)), (''text'', JStr (text' b))])
                    (content r)))
           # (case isError r of None \<Rightarrow> [] | Some e \<Rightarrow> [(''isError'', JBool e)]))"

text \<open>A handler returned, and the \<open>content\<close> of its result is one block of type \<open>text\<close>.\<close>

definition one_text_block :: "thrown + ToolResult \<Rightarrow> bool" where
  "one_text_block h =
     (case h of
        Inl e \<Rightarrow> False
      | Inr r \<Rightarrow> length (content r) = 1 \<and> list_all (\<lambda>b. type' b = ''text'') (content r))"

text \<open>The member \<open>k\<close> of the JSON body of a response, if it has one.\<close>

fun body_member :: "response \<Rightarrow> string \<Rightarrow> json option" where
  "body_member r k = (case resp_body r of BodyJson (JObj kvs) \<Rightarrow> map_of kvs k | _ \<Rightarrow> None)"

text \<open>The calls of the handler of tool \<open>T\<close> in a trace, and the calls of any handler.\<close>

definition handler_calls :: "string \<Rightarrow> effect list \<Rightarrow> effect list" where
  "handler_calls T fx = filter (\<lambda>e. case e of HandlerCalled n a \<Rightarrow> n = T | _ \<Rightarrow> False) fx"

definition any_handler_calls :: "effect list \<Rightarrow> effect list" where
  "any_handler_calls fx = filter (\<lambda>e. case e of HandlerCalled n a \<Rightarrow> True | _ \<Rightarrow> False) fx"

text \<open>The five method names that the transport routes to the dispatcher.\<close>

definition routed_methods :: "string list" where
  "routed_methods =
     [''list_tools'', ''call_tool'', ''list_resources'', ''list_resource_templates'',
      ''read_resource'']"

text \<open>
  The registered tool of a name, whether an argument object passes the input schema of
  the registered tool \<open>T\<close>, and what the handler of \<open>T\<close> returns on it.
\<close>

definition tool_named :: "global_scope \<Rightarrow> string \<Rightarrow> ToolDefinition option" where
  "tool_named self T = map_of (registered_tools self) T"

definition passes_schema :: "global_scope \<Rightarrow> runtime \<Rightarrow> string \<Rightarrow> (string \<times> json) list \<Rightarrow> bool" where
  "passes_schema self rt T A =
     (case tool_named self T of
        None \<Rightarrow> False
      | Some t \<Rightarrow> accepts rt (inputSchema t) (Some (JObj A)))"

definition violates_schema :: "global_scope \<Rightarrow> runtime \<Rightarrow> string \<Rightarrow> (string \<times> json) list \<Rightarrow> bool" where
  "violates_schema self rt T A =
     (case tool_named self T of
        None \<Rightarrow> False
      | Some t \<Rightarrow> \<not> accepts rt (inputSchema t) (Some (JObj A)))"

definition run_tool ::
  "global_scope \<Rightarrow> runtime \<Rightarrow> string \<Rightarrow> (string \<times> json) list \<Rightarrow> (thrown + ToolResult) option" where
  "run_tool self rt T A = map_option (\<lambda>t. handler t rt A) (tool_named self T)"

subsection \<open>Two engines to run the model on\<close>

text \<open>
  An engine whose upstream service answers every call with status 503, and one whose
  \<open>fetch\<close> rejects. Their conversions are simple stand-ins: no theorem depends on them.
\<close>

definition upstream_503 :: runtime where
  "upstream_503 =
     \<lparr>js_ToString = (\<lambda>v. Inr ''[object Object]''),
      js_toString_method = (\<lambda>v. Inr ''[object Object]''),
      JSON_stringify = (\<lambda>v. ''{}''),
      JSON_stringify_2 = (\<lambda>v. ''{}''),
      URLSearchParams_toString = (\<lambda>ps. concat (map (\<lambda>p. fst p @ ''='' @ snd p @ ''&'') ps)),
      is_url = (\<lambda>s. take 4 s = ''http''),
      global_fetch = (\<lambda>rq. Inr \<lparr>status = 503, statusText = ''Service Unavailable'',
                               json_result = Inr JNull\<rparr>)\<rparr>"

definition upstream_unreachable :: runtime where
  "upstream_unreachable =
     upstream_503\<lparr>global_fetch := (\<lambda>rq. Inl (OtherError ''fetch failed''))\<rparr>"

section \<open>The transport shell and the dispatcher\<close>

text \<open>
  What the \<open>try\<close> block of the POST branch gives for a body that is an object with a
  string under \<open>method\<close>: a routed name enters the dispatcher once and comes back with the
  fixed answer; any other name throws the \<open>McpError\<close> before anything is called.
\<close>

lemma route_routed:
  assumes "body_json rq = Inr (JObj kvs)"
      and "map_of kvs ''method'' = Some (JStr m)"
      and "m \<in> set routed_methods"
  shows "\<exists>S. route rt srv rq =
           (Inr (JObj [(''jsonrpc'', JStr ''2.0''), (''id'', or_null (map_of kvs ''id'')),
                       (''result'', JObj [])]),
            [Dispatched S (JObj kvs)])"
  using assms by (auto simp: route_def handleRequest_def routed_methods_def)

lemma route_unrouted:
  assumes "body_json rq = Inr (JObj kvs)"
      and "map_of kvs ''method'' = Some (JStr m)"
      and "m \<notin> set routed_methods"
  shows "route rt srv rq = (Inl (McpError MethodNotFound (''Unknown method: '' @ m)), [])"
  using assms by (simp add: route_def routed_methods_def)

lemma fetch_routed:
  assumes "http_method rq = ''POST''"
      and "body_json rq = Inr (JObj kvs)"
      and "map_of kvs ''method'' = Some (JStr m)"
      and "m \<in> set routed_methods"
  shows "\<exists>S. SseHandler_fetch rt srv rq =
           (\<lparr>resp_status = 200,
             resp_headers = [(''Content-Type'', ''application/json'')],
             resp_body = BodyJson (JObj [(''jsonrpc'', JStr ''2.0''),
                                         (''id'', or_null (map_of kvs ''id'')),
                                         (''result'', JObj [])])\<rparr>,
            [Dispatched S (JObj kvs)])"
proof -
  from route_routed [OF assms(2,3,4)] obtain S where
    "route rt srv rq =
       (Inr (JObj [(''jsonrpc'', JStr ''2.0''), (''id'', or_null (map_of kvs ''id'')),
                   (''result'', JObj [])]),
        [Dispatched S (JObj kvs)])" by blast
  then show ?thesis using assms(1) by (simp add: SseHandler_fetch_def)
qed

lemma fetch_call_tool:
  assumes "http_method rq = ''POST''"
      and "body_json rq = Inr (call_tool_body T A)"
  shows "SseHandler_fetch rt srv rq =
           (\<lparr>resp_status = 200,
             resp_headers = [(''Content-Type'', ''application/json'')],
             resp_body = BodyJson (JObj [(''jsonrpc'', JStr ''2.0''), (''id'', JNull),
                                         (''result'', JObj [])])\<rparr>,
            [Dispatched CallToolRequestSchema (call_tool_body T A)])"
  using assms
  by (simp add: SseHandler_fetch_def route_def handleRequest_def call_tool_body_def)

text \<open>
  C8. A POST request whose body is an object with one of the five routed names under
  \<open>method\<close> is answered, whatever its other members (\<open>params\<close> among them) and whatever
  the server, with status 200 and the body
  \<open>{jsonrpc: "2.0", id: <the request's id, or null>, result: {}}\<close>. The trace of the
  request is the one entry into the dispatcher: nothing is looked up, nothing is
  validated, and no handler of a tool is called.
\<close>

theorem routed_post_result_empty:
  assumes "http_method rq = ''POST''"
      and "body_json rq = Inr (JObj kvs)"
      and "map_of kvs ''method'' = Some (JStr m)"
      and "m \<in> set routed_methods"
  shows "(\<exists>S. SseHandler_fetch rt srv rq =
            (\<lparr>resp_status = 200,
              resp_headers = [(''Content-Type'', ''application/json'')],
              resp_body = BodyJson (JObj [(''jsonrpc'', JStr ''2.0''),
                                          (''id'', or_null (map_of kvs ''id'')),
                                          (''result'', JObj [])])\<rparr>,
             [Dispatched S (JObj kvs)]))
         \<and> any_handler_calls (snd (SseHandler_fetch rt srv rq)) = []"
proof -
  from fetch_routed [OF assms] obtain S where
    eq: "SseHandler_fetch rt srv rq =
           (\<lparr>resp_status = 200,
             resp_headers = [(''Content-Type'', ''application/json'')],
             resp_body = BodyJson (JObj [(''jsonrpc'', JStr ''2.0''),
                                         (''id'', or_null (map_of kvs ''id'')),
                                         (''result'', JObj [])])\<rparr>,
            [Dispatched S (JObj kvs)])" by blast
  have "any_handler_calls (snd (SseHandler_fetch rt srv rq)) = []"
    by (simp add: eq any_handler_calls_def)
  with eq show ?thesis by blast
qed

theorem routed_post_result_empty_witness:
  "http_method \<lparr>http_method = ''POST'', url = ''https://worker.example/sse'', headers = [],
           body_json = Inr (JObj [(''method'', JStr ''list_resource_templates''),
                                  (''params'', JObj [(''cursor'', JStr ''x'')]),
                                  (''id'', JNum 7)])\<rparr> = ''POST''
   \<and> ''list_resource_templates'' \<in> set routed_methods
   \<and> fst (SseHandler_fetch upstream_503 (createMcpServer None)
        \<lparr>http_method = ''POST'', url = ''https://worker.example/sse'', headers = [],
         body_json = Inr (JObj [(''method'', JStr ''list_resource_templates''),
                                (''params'', JObj [(''cursor'', JStr ''x'')]),
                                (''id'', JNum 7)])\<rparr>)
       = \<lparr>resp_status = 200,
          resp_headers = [(''Content-Type'', ''application/json'')],
          resp_body = BodyJson (JObj [(''jsonrpc'', JStr ''2.0''), (''id'', JNum 7),
                                      (''result'', JObj [])])\<rparr>
   \<and> any_handler_calls (snd (SseHandler_fetch upstream_503 (createMcpServer None)
        \<lparr>http_method = ''POST'', url = ''https://worker.example/sse'', headers = [],
         body_json = Inr (JObj [(''method'', JStr ''list_resource_templates''),
                                (''params'', JObj [(''cursor'', JStr ''x'')]),
                                (''id'', JNum 7)])\<rparr>)) = []"
  using routed_post_result_empty
    [of "\<lparr>http_method = ''POST'', url = ''https://worker.example/sse'', headers = [],
          body_json = Inr (JObj [(''method'', JStr ''list_resource_templates''),
                                 (''params'', JObj [(''cursor'', JStr ''x'')]),
                                 (''id'', JNum 7)])\<rparr>"
        "[(''method'', JStr ''list_resource_templates''),
          (''params'', JObj [(''cursor'', JStr ''x'')]), (''id'', JNum 7)]"
        "''list_resource_templates''" upstream_503 "createMcpServer None"]
  by (auto simp: routed_methods_def)

text \<open>
  C9. When the \<open>id\<close> of such a request is falsy (absent, \<open>null\<close>, \<open>false\<close>, \<open>0\<close> or
  the empty string), the successful response carries \<open>id: null\<close>; so a request with the
  id \<open>0\<close> is answered with \<open>id: null\<close>.
\<close>

theorem falsy_id_answered_with_null:
  assumes "http_method rq = ''POST''"
      and "body_json rq = Inr (JObj kvs)"
      and "map_of kvs ''method'' = Some (JStr m)"
      and "m \<in> set routed_methods"
      and "map_of kvs ''id'' \<in> {None, Some JNull, Some (JBool False), Some (JNum 0), Some (JStr [])}"
  shows "resp_status (fst (SseHandler_fetch rt srv rq)) = 200
         \<and> body_member (fst (SseHandler_fetch rt srv rq)) ''id'' = Some JNull
         \<and> body_member (fst (SseHandler_fetch rt srv rq)) ''result'' = Some (JObj [])"
proof -
  from fetch_routed [OF assms(1-4)] obtain S where
    eq: "SseHandler_fetch rt srv rq =
           (\<lparr>resp_status = 200,
             resp_headers = [(''Content-Type'', ''application/json'')],
             resp_body = BodyJson (JObj [(''jsonrpc'', JStr ''2.0''),
                                         (''id'', or_null (map_of kvs ''id'')),
                                         (''result'', JObj [])])\<rparr>,
            [Dispatched S (JObj kvs)])" by blast
  from assms(5) have "or_null (map_of kvs ''id'') = JNull" by auto
  with eq show ?thesis by simp
qed

theorem falsy_id_answered_with_null_witness:
  "map_of [(''method'', JStr ''list_tools''), (''id'', JNum 0)] ''id'' = Some (JNum 0)
   \<and> ''list_tools'' \<in> set routed_methods
   \<and> resp_status (fst (SseHandler_fetch upstream_503 (createMcpServer None)
        \<lparr>http_method = ''POST'', url = ''https://worker.example/sse'', headers = [],
         body_json = Inr (JObj [(''method'', JStr ''list_tools''), (''id'', JNum 0)])\<rparr>)) = 200
   \<and> body_member (fst (SseHandler_fetch upstream_503 (createMcpServer None)
        \<lparr>http_method = ''POST'', url = ''https://worker.example/sse'', headers = [],
         body_json = Inr (JObj [(''method'', JStr ''list_tools''), (''id'', JNum 0)])\<rparr>)) ''id''
       = Some JNull"
  using falsy_id_answered_with_null
    [of "\<lparr>http_method = ''POST'', url = ''https://worker.example/sse'', headers = [],
          body_json = Inr (JObj [(''method'', JStr ''list_tools''), (''id'', JNum 0)])\<rparr>"
        "[(''method'', JStr ''list_tools''), (''id'', JNum 0)]"
        "''list_tools''" upstream_503 "createMcpServer None"]
  by (simp add: routed_methods_def)

text \<open>
  C10. A request whose HTTP method is neither GET nor POST is answered with status 405
  and the body \<open>Method not allowed\<close>; its trace is empty: neither the dispatcher nor a
  handler of a tool is called.
\<close>

theorem other_http_methods_not_allowed:
  assumes "http_method rq \<noteq> ''GET''"
      and "http_method rq \<noteq> ''POST''"
  shows "SseHandler_fetch rt srv rq =
           (\<lparr>resp_status = 405, resp_headers = [], resp_body = BodyText ''Method not allowed''\<rparr>,
            [])"
  using assms by (simp add: SseHandler_fetch_def)

theorem other_http_methods_not_allowed_witness:
  "http_method \<lparr>http_method = ''DELETE'', url = ''https://worker.example/sse'', headers = [],
           body_json = Inr (call_tool_body ''puppeteer_click'' [(''selector'', JStr ''#go'')])\<rparr>
     \<noteq> ''GET''
   \<and> SseHandler_fetch upstream_503 (createMcpServer None)
        \<lparr>http_method = ''DELETE'', url = ''https://worker.example/sse'', headers = [],
         body_json = Inr (call_tool_body ''puppeteer_click'' [(''selector'', JStr ''#go'')])\<rparr>
       = (\<lparr>resp_status = 405, resp_headers = [], resp_body = BodyText ''Method not allowed''\<rparr>,
          [])"
  using other_http_methods_not_allowed
    [of "\<lparr>http_method = ''DELETE'', url = ''https://worker.example/sse'', headers = [],
          body_json = Inr (call_tool_body ''puppeteer_click'' [(''selector'', JStr ''#go'')])\<rparr>"
        upstream_503 "createMcpServer None"]
  by simp

text \<open>
  C3, as stated, fails for the method name \<open>list_resource_templates\<close>: it is none of
  \<open>list_tools\<close>, \<open>call_tool\<close>, \<open>list_resources\<close> and \<open>read_resource\<close>, yet the shell
  routes it to the dispatcher, and the answer is a success with status 200 and no
  \<open>error\<close> member.
\<close>

theorem unknown_method_counterexample:
  "''list_resource_templates'' \<notin> set [''list_tools'', ''call_tool'', ''list_resources'', ''read_resource'']
   \<and> resp_status (fst (SseHandler_fetch upstream_503 (createMcpServer None)
        \<lparr>http_method = ''POST'', url = ''https://worker.example/sse'', headers = [],
         body_json = Inr (JObj [(''method'', JStr ''list_resource_templates'')])\<rparr>)) = 200
   \<and> body_member (fst (SseHandler_fetch upstream_503 (createMcpServer None)
        \<lparr>http_method = ''POST'', url = ''https://worker.example/sse'', headers = [],
         body_json = Inr (JObj [(''method'', JStr ''list_resource_templates'')])\<rparr>)) ''error''
       = None
   \<and> body_member (fst (SseHandler_fetch upstream_503 (createMcpServer None)
        \<lparr>http_method = ''POST'', url = ''https://worker.example/sse'', headers = [],
         body_json = Inr (JObj [(''method'', JStr ''list_resource_templates'')])\<rparr>)) ''result''
       = Some (JObj [])"
  by (simp add: SseHandler_fetch_def route_def handleRequest_def)

text \<open>
  C3, amended. For every method name \<open>M\<close> other than the five routed names
  (\<open>list_tools\<close>, \<open>call_tool\<close>, \<open>list_resources\<close>, \<open>list_resource_templates\<close>,
  \<open>read_resource\<close>), a POST request \<open>{method: M, ...}\<close> is answered with status 500 and
  the body \<open>{jsonrpc: "2.0", error: {code: -32601, message: "Unknown method: M"}, id: null}\<close>;
  the trace is empty, so neither the dispatcher nor a handler of a tool is called.
\<close>

theorem unknown_method_not_found:
  assumes "http_method rq = ''POST''"
      and "body_json rq = Inr (JObj kvs)"
      and "map_of kvs ''method'' = Some (JStr M)"
      and "M \<notin> set routed_methods"
  shows "SseHandler_fetch rt srv rq =
           (\<lparr>resp_status = 500,
             resp_headers = [(''Content-Type'', ''application/json'')],
             resp_body = BodyJson
               (JObj [(''jsonrpc'', JStr ''2.0''),
                      (''error'', JObj [(''code'', JNum (- 32601)),
                                        (''message'', JStr (''Unknown method: '' @ M))]),
                      (''id'', JNull)])\<rparr>,
            [])"
  using assms(1) route_unrouted [OF assms(2,3,4), of rt srv]
  by (simp add: SseHandler_fetch_def errorResponse_def)

theorem unknown_method_not_found_witness:
  "''tools/list'' \<notin> set routed_methods
   \<and> SseHandler_fetch upstream_503 (createMcpServer None)
        \<lparr>http_method = ''POST'', url = ''https://worker.example/sse'', headers = [],
         body_json = Inr (JObj [(''method'', JStr ''tools/list''), (''id'', JNum 3)])\<rparr>
       = (\<lparr>resp_status = 500,
           resp_headers = [(''Content-Type'', ''application/json'')],
           resp_body = BodyJson
             (JObj [(''jsonrpc'', JStr ''2.0''),
                    (''error'', JObj [(''code'', JNum (- 32601)),
                                      (''message'', JStr ''Unknown method: tools/list'')]),
                    (''id'', JNull)])\<rparr>,
          [])"
  using unknown_method_not_found
    [of "\<lparr>http_method = ''POST'', url = ''https://worker.example/sse'', headers = [],
          body_json = Inr (JObj [(''method'', JStr ''tools/list''), (''id'', JNum 3)])\<rparr>"
        "[(''method'', JStr ''tools/list''), (''id'', JNum 3)]"
        "''tools/list''" upstream_503 "createMcpServer None"]
  by (simp add: routed_methods_def)

text \<open>
  C4, as stated, fails: a \<open>read_resource\<close> request is answered with status 200 and a
  \<open>result\<close>, and the response has no \<open>error\<close> member.
\<close>

theorem read_resource_counterexample:
  "resp_status (fst (SseHandler_fetch upstream_503 (createMcpServer None)
        \<lparr>http_method = ''POST'', url = ''https://worker.example/sse'', headers = [],
         body_json = Inr (JObj [(''method'', JStr ''read_resource''),
                                (''params'', JObj [(''uri'', JStr ''file:///a'')])])\<rparr>)) = 200
   \<and> body_member (fst (SseHandler_fetch upstream_503 (createMcpServer None)
        \<lparr>http_method = ''POST'', url = ''https://worker.example/sse'', headers = [],
         body_json = Inr (JObj [(''method'', JStr ''read_resource''),
                                (''params'', JObj [(''uri'', JStr ''file:///a'')])])\<rparr>)) ''error''
       = None
   \<and> body_member (fst (SseHandler_fetch upstream_503 (createMcpServer None)
        \<lparr>http_method = ''POST'', url = ''https://worker.example/sse'', headers = [],
         body_json = Inr (JObj [(''method'', JStr ''read_resource''),
                                (''params'', JObj [(''uri'', JStr ''file:///a'')])])\<rparr>)) ''result''
       = Some (JObj [])"
  by (simp add: SseHandler_fetch_def route_def handleRequest_def)

text \<open>
  C4, amended. A POST request with the method \<open>read_resource\<close> always succeeds: the
  status is 200 and the body is
  \<open>{jsonrpc: "2.0", id: <the request's id, or null>, result: {}}\<close>, with the member
  \<open>result: {}\<close> and no member \<open>error\<close>, so it never fails with \<open>MethodNotFound\<close>.
\<close>

theorem read_resource_succeeds:
  assumes "http_method rq = ''POST''"
      and "body_json rq = Inr (JObj kvs)"
      and "map_of kvs ''method'' = Some (JStr ''read_resource'')"
  shows "resp_status (fst (SseHandler_fetch rt srv rq)) = 200
         \<and> resp_body (fst (SseHandler_fetch rt srv rq))
             = BodyJson (JObj [(''jsonrpc'', JStr ''2.0''), (''id'', or_null (map_of kvs ''id'')),
                               (''result'', JObj [])])
         \<and> body_member (fst (SseHandler_fetch rt srv rq)) ''result'' = Some (JObj [])
         \<and> body_member (fst (SseHandler_fetch rt srv rq)) ''error'' = None
         \<and> snd (SseHandler_fetch rt srv rq) = [Dispatched ReadResourceRequestSchema (JObj kvs)]"
  using assms by (simp add: SseHandler_fetch_def route_def handleRequest_def)

theorem read_resource_succeeds_witness:
  "map_of [(''method'', JStr ''read_resource''), (''params'', JObj [(''uri'', JStr ''file:///a'')])]
     ''method'' = Some (JStr ''read_resource'')
   \<and> resp_status (fst (SseHandler_fetch upstream_unreachable (createMcpServer None)
        \<lparr>http_method = ''POST'', url = ''https://worker.example/sse'', headers = [],
         body_json = Inr (JObj [(''method'', JStr ''read_resource''),
                                (''params'', JObj [(''uri'', JStr ''file:///a'')])])\<rparr>)) = 200
   \<and> body_member (fst (SseHandler_fetch upstream_unreachable (createMcpServer None)
        \<lparr>http_method = ''POST'', url = ''https://worker.example/sse'', headers = [],
         body_json = Inr (JObj [(''method'', JStr ''read_resource''),
                                (''params'', JObj [(''uri'', JStr ''file:///a'')])])\<rparr>)) ''error''
       = None"
  using read_resource_succeeds
    [of "\<lparr>http_method = ''POST'', url = ''https://worker.example/sse'', headers = [],
          body_json = Inr (JObj [(''method'', JStr ''read_resource''),
                                 (''params'', JObj [(''uri'', JStr ''file:///a'')])])\<rparr>"
        "[(''method'', JStr ''read_resource''), (''params'', JObj [(''uri'', JStr ''file:///a'')])]"
        upstream_unreachable "createMcpServer None"]
  by simp

section \<open>Calling a tool through the dispatcher\<close>

lemma registered_names:
  "map fst (registered_tools self) =
     [''puppeteer_navigate'', ''puppeteer_screenshot'', ''puppeteer_get_text'',
      ''puppeteer_click'', ''puppeteer_type'',
      ''brave_web_search'', ''brave_news_search'', ''brave_image_search'',
      ''supabase_query_table'', ''supabase_insert_rows'', ''supabase_update_rows'',
      ''supabase_delete_rows'', ''supabase_execute_function'']"
  by (simp add: registered_tools_def createPuppeteerTools_def createBraveSearchTools_def
      createSupabaseTools_def Let_def)

lemma puppeteer_click_registered:
  "tool_named self ''puppeteer_click'' =
     Some \<lparr>description = ''Click on an element on the page'',
           inputSchema = ClickSchema, handler = puppeteer_click_handler\<rparr>"
  by (simp add: tool_named_def registered_tools_def createPuppeteerTools_def)

text \<open>
  C1, as stated, fails for the registered tool \<open>puppeteer_click\<close> and the argument
  \<open>{selector: "#go"}\<close>, which passes its schema: the handler would return one text
  block, but the \<open>result\<close> of the response is the empty object, and the trace holds no
  call of the handler.
\<close>

theorem call_tool_valid_counterexample:
  "passes_schema None upstream_503 ''puppeteer_click'' [(''selector'', JStr ''#go'')]
   \<and> run_tool None upstream_503 ''puppeteer_click'' [(''selector'', JStr ''#go'')]
       = Some (Inr \<lparr>content = [\<lparr>type' = ''text'',
                                  text' = ''Clicked on element with selector: #go''\<rparr>],
                    isError = None\<rparr>)
   \<and> body_member (fst (SseHandler_fetch upstream_503 (createMcpServer None)
        \<lparr>http_method = ''POST'', url = ''https://worker.example/sse'', headers = [],
         body_json = Inr (call_tool_body ''puppeteer_click'' [(''selector'', JStr ''#go'')])\<rparr>))
        ''result''
       = Some (JObj [])
   \<and> ToolResult_json \<lparr>content = [\<lparr>type' = ''text'',
                                   text' = ''Clicked on element with selector: #go''\<rparr>],
                       isError = None\<rparr> \<noteq> JObj []
   \<and> handler_calls ''puppeteer_click'' (snd (SseHandler_fetch upstream_503 (createMcpServer None)
        \<lparr>http_method = ''POST'', url = ''https://worker.example/sse'', headers = [],
         body_json = Inr (call_tool_body ''puppeteer_click'' [(''selector'', JStr ''#go'')])\<rparr>))
       = []"
  by (simp add: passes_schema_def run_tool_def puppeteer_click_registered ClickSchema_def
      puppeteer_click_handler_def SseHandler_fetch_def route_def handleRequest_def
      call_tool_body_def ToolResult_json_def handler_calls_def)

text \<open>
  C1, amended. For every registered tool name \<open>T\<close> and every argument object \<open>A\<close> that
  passes the input schema of \<open>T\<close>, a POST request
  \<open>{method: "call_tool", params: {name: T, arguments: A}}\<close> is answered with status 200
  and the body \<open>{jsonrpc: "2.0", id: null, result: {}}\<close>: the \<open>result\<close> is the empty
  object, and the handler of \<open>T\<close> is not called (the trace is the one entry into the
  dispatcher).
\<close>

theorem call_tool_valid_empty_result:
  assumes "passes_schema self rt T A"
      and "http_method rq = ''POST''"
      and "body_json rq = Inr (call_tool_body T A)"
  shows "T \<in> set (map fst (registered_tools self))
         \<and> SseHandler_fetch rt (createMcpServer self) rq =
             (\<lparr>resp_status = 200,
               resp_headers = [(''Content-Type'', ''application/json'')],
               resp_body = BodyJson (JObj [(''jsonrpc'', JStr ''2.0''), (''id'', JNull),
                                           (''result'', JObj [])])\<rparr>,
              [Dispatched CallToolRequestSchema (call_tool_body T A)])
         \<and> handler_calls T (snd (SseHandler_fetch rt (createMcpServer self) rq)) = []"
proof -
  from assms(1) obtain t where "map_of (registered_tools self) T = Some t"
    by (auto simp: passes_schema_def tool_named_def split: option.splits)
  then have "T \<in> fst ` set (registered_tools self)"
    by (meson domI domIff map_of_eq_None_iff)
  then have reg: "T \<in> set (map fst (registered_tools self))" by simp
  note eq = fetch_call_tool [OF assms(2,3), of rt "createMcpServer self"]
  have "handler_calls T (snd (SseHandler_fetch rt (createMcpServer self) rq)) = []"
    by (simp add: eq handler_calls_def)
  with reg eq show ?thesis by blast
qed

theorem call_tool_valid_empty_result_witness:
  "passes_schema None upstream_503 ''brave_web_search'' [(''query'', JStr ''isabelle''), (''count'', JNum 5)]
   \<and> SseHandler_fetch upstream_503 (createMcpServer None)
        \<lparr>http_method = ''POST'', url = ''https://worker.example/sse'', headers = [],
         body_json = Inr (call_tool_body ''brave_web_search''
                            [(''query'', JStr ''isabelle''), (''count'', JNum 5)])\<rparr>
       = (\<lparr>resp_status = 200,
           resp_headers = [(''Content-Type'', ''application/json'')],
           resp_body = BodyJson (JObj [(''jsonrpc'', JStr ''2.0''), (''id'', JNull),
                                       (''result'', JObj [])])\<rparr>,
          [Dispatched CallToolRequestSchema
             (call_tool_body ''brave_web_search''
                [(''query'', JStr ''isabelle''), (''count'', JNum 5)])])"
proof -
  have p: "passes_schema None upstream_503 ''brave_web_search''
             [(''query'', JStr ''isabelle''), (''count'', JNum 5)]"
    by (simp add: passes_schema_def tool_named_def registered_tools_def createPuppeteerTools_def
        createBraveSearchTools_def WebSearchSchema_def)
  show ?thesis
    using p call_tool_valid_empty_result
      [OF p, of "\<lparr>http_method = ''POST'', url = ''https://worker.example/sse'', headers = [],
                  body_json = Inr (call_tool_body ''brave_web_search''
                                     [(''query'', JStr ''isabelle''), (''count'', JNum 5)])\<rparr>"]
    by simp
qed

text \<open>
  C2, as stated, fails for the registered tool \<open>puppeteer_click\<close> and the argument
  \<open>{}\<close>, which lacks the required \<open>selector\<close>: the response is a success with status
  200 and a \<open>result\<close>, and it has no \<open>error\<close> member, so no \<open>InvalidParams\<close>.
\<close>

theorem call_tool_invalid_counterexample:
  "violates_schema None upstream_503 ''puppeteer_click'' []
   \<and> resp_status (fst (SseHandler_fetch upstream_503 (createMcpServer None)
        \<lparr>http_method = ''POST'', url = ''https://worker.example/sse'', headers = [],
         body_json = Inr (call_tool_body ''puppeteer_click'' [])\<rparr>)) = 200
   \<and> body_member (fst (SseHandler_fetch upstream_503 (createMcpServer None)
        \<lparr>http_method = ''POST'', url = ''https://worker.example/sse'', headers = [],
         body_json = Inr (call_tool_body ''puppeteer_click'' [])\<rparr>)) ''error'' = None
   \<and> body_member (fst (SseHandler_fetch upstream_503 (createMcpServer None)
        \<lparr>http_method = ''POST'', url = ''https://worker.example/sse'', headers = [],
         body_json = Inr (call_tool_body ''puppeteer_click'' [])\<rparr>)) ''result''
       = Some (JObj [])"
  by (simp add: violates_schema_def puppeteer_click_registered ClickSchema_def
      SseHandler_fetch_def route_def handleRequest_def call_tool_body_def)

text \<open>
  C2, amended. For every registered tool name \<open>T\<close> and every argument object \<open>A\<close> that
  violates the input schema of \<open>T\<close>, a POST request
  \<open>{method: "call_tool", params: {name: T, arguments: A}}\<close> is answered with status 200
  and the body \<open>{jsonrpc: "2.0", id: null, result: {}}\<close>, without an \<open>error\<close> member;
  the handler of \<open>T\<close> is never called.
\<close>

theorem call_tool_invalid_not_rejected:
  assumes "violates_schema self rt T A"
      and "http_method rq = ''POST''"
      and "body_json rq = Inr (call_tool_body T A)"
  shows "resp_status (fst (SseHandler_fetch rt (createMcpServer self) rq)) = 200
         \<and> resp_body (fst (SseHandler_fetch rt (createMcpServer self) rq))
             = BodyJson (JObj [(''jsonrpc'', JStr ''2.0''), (''id'', JNull), (''result'', JObj [])])
         \<and> body_member (fst (SseHandler_fetch rt (createMcpServer self) rq)) ''error'' = None
         \<and> handler_calls T (snd (SseHandler_fetch rt (createMcpServer self) rq)) = []"
  by (simp add: fetch_call_tool [OF assms(2,3)] handler_calls_def)

theorem call_tool_invalid_not_rejected_witness:
  "violates_schema None upstream_503 ''brave_web_search'' [(''query'', JStr []), (''count'', JNum 50)]
   \<and> resp_status (fst (SseHandler_fetch upstream_503 (createMcpServer None)
        \<lparr>http_method = ''POST'', url = ''https://worker.example/sse'', headers = [],
         body_json = Inr (call_tool_body ''brave_web_search''
                            [(''query'', JStr []), (''count'', JNum 50)])\<rparr>)) = 200
   \<and> handler_calls ''brave_web_search'' (snd (SseHandler_fetch upstream_503 (createMcpServer None)
        \<lparr>http_method = ''POST'', url = ''https://worker.example/sse'', headers = [],
         body_json = Inr (call_tool_body ''brave_web_search''
                            [(''query'', JStr []), (''count'', JNum 50)])\<rparr>)) = []"
proof -
  have v: "violates_schema None upstream_503 ''brave_web_search''
             [(''query'', JStr []), (''count'', JNum 50)]"
    by (simp add: violates_schema_def tool_named_def registered_tools_def
        createPuppeteerTools_def createBraveSearchTools_def WebSearchSchema_def)
  show ?thesis
    using v call_tool_invalid_not_rejected
      [OF v, of "\<lparr>http_method = ''POST'', url = ''https://worker.example/sse'', headers = [],
                  body_json = Inr (call_tool_body ''brave_web_search''
                                     [(''query'', JStr []), (''count'', JNum 50)])\<rparr>"]
    by simp
qed

section \<open>The results of the handlers\<close>

lemma and_then_Inr:
  "and_then m f = Inr r \<Longrightarrow> \<exists>x. m = Inr x \<and> f x = Inr r"
  by (cases m) (simp_all add: and_then_def)

text \<open>A result of the shared tail has one block, of type \<open>text\<close>, and no error flag.\<close>

lemma fetch_and_wrap_block:
  assumes "fetch_and_wrap service rt rq = Inr r"
  shows "\<exists>b. content r = [b] \<and> type' b = ''text'' \<and> isError r = None"
  using assms
  by (auto simp: fetch_and_wrap_def and_then_def split: sum.splits if_splits)

text \<open>
  The shape all eight handlers with a \<open>try\<close> and a \<open>catch\<close> have: whatever the
  \<open>try\<close> block does, the handler returns, with one block of type \<open>text\<close>.
\<close>

lemma caught_one_block:
  assumes "h = (case and_then m (fetch_and_wrap service rt) of
                  Inr r \<Rightarrow> Inr r
                | Inl error \<Rightarrow>
                    Inr \<lparr>content = [\<lparr>type' = ''text'', text' = prefix @ message_or_String error\<rparr>],
                         isError = Some True\<rparr>)"
  shows "one_text_block h"
proof (cases "and_then m (fetch_and_wrap service rt)")
  case (Inl error)
  with assms show ?thesis by (simp add: one_text_block_def)
next
  case (Inr r)
  then obtain rq where "fetch_and_wrap service rt rq = Inr r"
    by (blast dest: and_then_Inr)
  from fetch_and_wrap_block [OF this] Inr assms show ?thesis
    by (auto simp: one_text_block_def)
qed

lemma brave_handlers_one_block:
  "one_text_block (brave_web_search_handler hdrs rt args)"
  "one_text_block (brave_news_search_handler hdrs rt args)"
  "one_text_block (brave_image_search_handler hdrs rt args)"
  by (rule caught_one_block, rule brave_web_search_handler_def,
      rule caught_one_block, rule brave_news_search_handler_def,
      rule caught_one_block, rule brave_image_search_handler_def)

lemma supabase_handlers_one_block:
  "one_text_block (supabase_query_table_handler cfg rt args)"
  "one_text_block (supabase_insert_rows_handler cfg rt args)"
  "one_text_block (supabase_update_rows_handler cfg rt args)"
  "one_text_block (supabase_delete_rows_handler cfg rt args)"
  "one_text_block (supabase_execute_function_handler cfg rt args)"
  by (rule caught_one_block, rule supabase_query_table_handler_def,
      rule caught_one_block, rule supabase_insert_rows_handler_def,
      rule caught_one_block, rule supabase_update_rows_handler_def,
      rule caught_one_block, rule supabase_delete_rows_handler_def,
      rule caught_one_block, rule supabase_execute_function_handler_def)

text \<open>
  The stubs have no \<open>catch\<close>: they return because a validated argument holds strings
  where the templates read.
\<close>

lemma accepts_ZString:
  "accepts rt (ZString cs) v \<Longrightarrow> \<exists>s. v = Some (JStr s)"
  by (auto split: option.splits json.splits)

lemma puppeteer_navigate_one_block:
  assumes "accepts rt NavigateSchema (Some (JObj args))"
  shows "one_text_block (puppeteer_navigate_handler rt args)"
proof -
  from assms have "accepts rt (ZString [Url]) (map_of args ''url'')"
    by (simp add: NavigateSchema_def)
  then obtain s where "map_of args ''url'' = Some (JStr s)"
    by (blast dest: accepts_ZString)
  then show ?thesis by (simp add: puppeteer_navigate_handler_def one_text_block_def)
qed

lemma puppeteer_screenshot_one_block:
  assumes "accepts rt ScreenshotSchema (Some (JObj args))"
  shows "one_text_block (puppeteer_screenshot_handler rt args)"
proof -
  from assms have "map_of args ''selector'' = None
      \<or> accepts rt (ZString []) (map_of args ''selector'')"
    by (simp add: ScreenshotSchema_def)
  then have "map_of args ''selector'' = None \<or> (\<exists>s. map_of args ''selector'' = Some (JStr s))"
    by (blast dest: accepts_ZString)
  then show ?thesis
    by (auto simp: puppeteer_screenshot_handler_def or_string_def one_text_block_def)
qed

lemma puppeteer_get_text_one_block:
  assumes "accepts rt GetTextSchema (Some (JObj args))"
  shows "one_text_block (puppeteer_get_text_handler rt args)"
proof -
  from assms have "accepts rt (ZString []) (map_of args ''selector'')"
    by (simp add: GetTextSchema_def)
  then obtain s where "map_of args ''selector'' = Some (JStr s)"
    by (blast dest: accepts_ZString)
  then show ?thesis by (simp add: puppeteer_get_text_handler_def one_text_block_def)
qed

lemma puppeteer_click_one_block:
  assumes "accepts rt ClickSchema (Some (JObj args))"
  shows "one_text_block (puppeteer_click_handler rt args)"
proof -
  from assms have "accepts rt (ZString []) (map_of args ''selector'')"
    by (simp add: ClickSchema_def)
  then obtain s where "map_of args ''selector'' = Some (JStr s)"
    by (blast dest: accepts_ZString)
  then show ?thesis by (simp add: puppeteer_click_handler_def one_text_block_def)
qed

lemma puppeteer_type_one_block:
  assumes "accepts rt TypeSchema (Some (JObj args))"
  shows "one_text_block (puppeteer_type_handler rt args)"
proof -
  from assms have "accepts rt (ZString []) (map_of args ''selector'')"
    and "accepts rt (ZString []) (map_of args ''text'')"
    by (simp_all add: TypeSchema_def)
  then obtain s t where "map_of args ''selector'' = Some (JStr s)"
    and "map_of args ''text'' = Some (JStr t)"
    by (blast dest: accepts_ZString)
  then show ?thesis by (simp add: puppeteer_type_handler_def one_text_block_def)
qed

text \<open>
  C7. The tools of the code base are the thirteen registered ones (five browser stubs,
  three Brave searches, five Supabase tools). For each of them and every argument object
  that passes its input schema, the handler returns a result whose \<open>content\<close> is exactly
  one block, of type \<open>text\<close>; this holds whatever the engine and the upstream service
  do, so on the success path and on the error path alike.
\<close>

theorem every_tool_result_has_one_block:
  assumes "(T, t) \<in> set (registered_tools self)"
      and "accepts rt (inputSchema t) (Some (JObj args))"
  shows "(\<exists>r b. handler t rt args = Inr r \<and> content r = [b] \<and> type' b = ''text''
                \<and> content r \<noteq> [])
         \<and> map fst (registered_tools self) =
             [''puppeteer_navigate'', ''puppeteer_screenshot'', ''puppeteer_get_text'',
              ''puppeteer_click'', ''puppeteer_type'',
              ''brave_web_search'', ''brave_news_search'', ''brave_image_search'',
              ''supabase_query_table'', ''supabase_insert_rows'', ''supabase_update_rows'',
              ''supabase_delete_rows'', ''supabase_execute_function'']"
proof -
  have "one_text_block (handler t rt args)"
    using assms
    by (auto simp: registered_tools_def createPuppeteerTools_def createBraveSearchTools_def
        createSupabaseTools_def Let_def brave_handlers_one_block supabase_handlers_one_block
        puppeteer_navigate_one_block puppeteer_screenshot_one_block
        puppeteer_get_text_one_block puppeteer_click_one_block puppeteer_type_one_block)
  then obtain r where r: "handler t rt args = Inr r" "length (content r) = 1"
    "list_all (\<lambda>b. type' b = ''text'') (content r)"
    by (auto simp: one_text_block_def split: sum.splits)
  from r(2) obtain b where "content r = [b]"
    by (cases "content r") auto
  with r registered_names [of self] show ?thesis by auto
qed

theorem every_tool_result_has_one_block_witness:
  "(''supabase_delete_rows'',
    \<lparr>description = ''Delete rows from a Supabase table'', inputSchema = DeleteRowsSchema,
     handler = supabase_delete_rows_handler (supabase_configuration None)\<rparr>)
     \<in> set (registered_tools None)
   \<and> accepts upstream_unreachable DeleteRowsSchema
       (Some (JObj [(''table'', JStr ''notes''), (''filter'', JStr ''id=eq.1'')]))
   \<and> supabase_delete_rows_handler (supabase_configuration None) upstream_unreachable
        [(''table'', JStr ''notes''), (''filter'', JStr ''id=eq.1'')]
       = Inr \<lparr>content = [\<lparr>type' = ''text'',
                            text' = ''Error in supabase_delete_rows: fetch failed''\<rparr>],
              isError = Some True\<rparr>"
proof -
  have m: "(''supabase_delete_rows'',
            \<lparr>description = ''Delete rows from a Supabase table'', inputSchema = DeleteRowsSchema,
             handler = supabase_delete_rows_handler (supabase_configuration None)\<rparr>)
           \<in> set (registered_tools None)"
    by (simp add: registered_tools_def createSupabaseTools_def Let_def)
  have a: "accepts upstream_unreachable DeleteRowsSchema
             (Some (JObj [(''table'', JStr ''notes''), (''filter'', JStr ''id=eq.1'')]))"
    by (simp add: DeleteRowsSchema_def)
  have e: "supabase_delete_rows_handler (supabase_configuration None) upstream_unreachable
             [(''table'', JStr ''notes''), (''filter'', JStr ''id=eq.1'')]
           = Inr \<lparr>content = [\<lparr>type' = ''text'',
                                text' = ''Error in supabase_delete_rows: fetch failed''\<rparr>],
                  isError = Some True\<rparr>"
    by (simp add: supabase_delete_rows_handler_def supabase_delete_rows_request_def
        and_then_def fetch_and_wrap_def upstream_unreachable_def upstream_503_def)
  from every_tool_result_has_one_block [OF m, of upstream_unreachable
      "[(''table'', JStr ''notes''), (''filter'', JStr ''id=eq.1'')]"] a m e
  show ?thesis by simp
qed

lemma brave_web_search_registered:
  "tool_named self ''brave_web_search'' =
     Some \<lparr>description = ''Search the web using Brave Search'',
           inputSchema = WebSearchSchema, handler = brave_web_search_handler (apiHeaders self)\<rparr>"
  by (simp add: tool_named_def registered_tools_def createPuppeteerTools_def
      createBraveSearchTools_def)

text \<open>
  What the \<open>catch\<close> of \<open>brave_web_search\<close> returns once the request \<open>rq\<close> has been
  built and the call of \<open>fetch\<close> on it throws, or answers with a response that is not
  \<open>ok\<close>.
\<close>

lemma brave_web_search_caught:
  assumes "brave_web_search_request hdrs rt args = Inr rq"
      and "case global_fetch rt rq of Inl e \<Rightarrow> True | Inr response \<Rightarrow> \<not> ok response"
  shows "brave_web_search_handler hdrs rt args =
           Inr \<lparr>content =
                  [\<lparr>type' = ''text'',
                    text' = ''Error in brave_web_search: ''
                      @ (case global_fetch rt rq of
                           Inl e \<Rightarrow> message_or_String e
                         | Inr response \<Rightarrow>
                             ''Brave Search API error: '' @ show_nat (status response)
                             @ '' '' @ statusText response)\<rparr>],
                isError = Some True\<rparr>"
proof (cases "global_fetch rt rq")
  case (Inl e)
  with assms(1) show ?thesis
    by (simp add: brave_web_search_handler_def and_then_def fetch_and_wrap_def)
next
  case (Inr response)
  with assms show ?thesis
    by (simp add: brave_web_search_handler_def and_then_def fetch_and_wrap_def)
qed

text \<open>
  C5. Let the argument object pass the schema of \<open>brave_web_search\<close>, let the handler
  reach its upstream call, and let that call throw or answer with a status that is not a
  success. Then the handler returns (it does not throw) a result with \<open>isError: true\<close>
  and exactly one block, of type \<open>text\<close>, whose text is \<open>Error in brave_web_search: \<close>
  followed by the message of what was thrown, or by
  \<open>Brave Search API error: <status> <statusText>\<close>. The transport answers the
  \<open>call_tool\<close> request for these arguments with status 200.
\<close>

theorem brave_web_search_failure_contained:
  assumes "passes_schema self rt ''brave_web_search'' args"
      and "brave_web_search_request (apiHeaders self) rt args = Inr upstream_rq"
      and "case global_fetch rt upstream_rq of Inl e \<Rightarrow> True | Inr response \<Rightarrow> \<not> ok response"
      and "http_method rq = ''POST''"
      and "body_json rq = Inr (call_tool_body ''brave_web_search'' args)"
  shows "run_tool self rt ''brave_web_search'' args =
           Some (Inr \<lparr>content =
                  [\<lparr>type' = ''text'',
                    text' = ''Error in brave_web_search: ''
                      @ (case global_fetch rt upstream_rq of
                           Inl e \<Rightarrow> message_or_String e
                         | Inr response \<Rightarrow>
                             ''Brave Search API error: '' @ show_nat (status response)
                             @ '' '' @ statusText response)\<rparr>],
                isError = Some True\<rparr>)
         \<and> resp_status (fst (SseHandler_fetch rt (createMcpServer self) rq)) = 200"
  by (simp add: run_tool_def brave_web_search_registered
      brave_web_search_caught [OF assms(2,3)] fetch_call_tool [OF assms(4,5)])

theorem brave_web_search_failure_contained_witness:
  "passes_schema None upstream_503 ''brave_web_search'' [(''query'', JStr ''isabelle'')]
   \<and> global_fetch upstream_503
        \<lparr>req_url = ''https://api.search.brave.com/res/v1/web/search?q=isabelle&count=10&'',
         req_method = ''GET'', req_headers = apiHeaders None, req_body = None\<rparr>
       = Inr \<lparr>status = 503, statusText = ''Service Unavailable'', json_result = Inr JNull\<rparr>
   \<and> run_tool None upstream_503 ''brave_web_search'' [(''query'', JStr ''isabelle'')]
       = Some (Inr \<lparr>content =
                 [\<lparr>type' = ''text'',
                   text' = ''Error in brave_web_search: Brave Search API error: 503 Service Unavailable''\<rparr>],
               isError = Some True\<rparr>)
   \<and> resp_status (fst (SseHandler_fetch upstream_503 (createMcpServer None)
        \<lparr>http_method = ''POST'', url = ''https://worker.example/sse'', headers = [],
         body_json = Inr (call_tool_body ''brave_web_search'' [(''query'', JStr ''isabelle'')])\<rparr>))
       = 200"
proof -
  have p: "passes_schema None upstream_503 ''brave_web_search'' [(''query'', JStr ''isabelle'')]"
    by (simp add: passes_schema_def brave_web_search_registered WebSearchSchema_def)
  have q: "brave_web_search_request (apiHeaders None) upstream_503 [(''query'', JStr ''isabelle'')]
           = Inr \<lparr>req_url = ''https://api.search.brave.com/res/v1/web/search?q=isabelle&count=10&'',
                  req_method = ''GET'', req_headers = apiHeaders None, req_body = None\<rparr>"
    by (simp add: brave_web_search_request_def count_or_10_def and_then_def append_if_def
        BRAVE_SEARCH_API_def upstream_503_def)
  have f: "global_fetch upstream_503
             \<lparr>req_url = ''https://api.search.brave.com/res/v1/web/search?q=isabelle&count=10&'',
              req_method = ''GET'', req_headers = apiHeaders None, req_body = None\<rparr>
           = Inr \<lparr>status = 503, statusText = ''Service Unavailable'',
                  json_result = Inr JNull\<rparr>"
    by (simp add: upstream_503_def)
  have c: "case global_fetch upstream_503
             \<lparr>req_url = ''https://api.search.brave.com/res/v1/web/search?q=isabelle&count=10&'',
              req_method = ''GET'', req_headers = apiHeaders None, req_body = None\<rparr> of
             Inl e \<Rightarrow> True | Inr response \<Rightarrow> \<not> ok response"
    by (simp add: f ok_def)
  have s: "show_nat 503 = ''503''"
    by (simp add: show_nat.simps)
  from brave_web_search_failure_contained [OF p q c,
      of "\<lparr>http_method = ''POST'', url = ''https://worker.example/sse'', headers = [],
           body_json = Inr (call_tool_body ''brave_web_search'' [(''query'', JStr ''isabelle'')])\<rparr>"]
    p f s
  show ?thesis by simp
qed

section \<open>The notification channel\<close>

text \<open>
  While the timer is set and the signal has not fired, each firing of the timer adds one
  heartbeat and changes nothing else.
\<close>

lemma deliver_timers:
  assumes "interval c = Some p" and "\<not> closed c"
  shows "foldl deliver c (replicate n TimerDue)
           = c\<lparr>enqueued := enqueued c @ replicate n heartbeat_chunk\<rparr>"
  using assms
proof (induction n arbitrary: c)
  case 0
  then show ?case by simp
next
  case (Suc n)
  let ?c = "c\<lparr>enqueued := enqueued c @ [heartbeat_chunk]\<rparr>"
  from Suc.prems have step: "deliver c TimerDue = ?c" by simp
  from Suc.prems have "interval ?c = Some p" and "\<not> closed ?c" by simp_all
  from Suc.IH [OF this] step show ?case
    by (simp add: replicate_app_Cons_same)
qed

text \<open>Once the listener has run, the timer is cleared and nothing changes any more.\<close>

lemma deliver_after_abort:
  assumes "interval c = None" and "aborted c"
  shows "foldl deliver c evs = c"
  using assms
proof (induction evs)
  case Nil
  then show ?case by simp
next
  case (Cons e evs)
  then have "deliver c e = c" by (cases e) simp_all
  with Cons show ?case by simp
qed

lemma no_abort_all_timers:
  "AbortFired \<notin> set evs \<Longrightarrow> evs = replicate (length evs) TimerDue"
proof (induction evs)
  case Nil
  then show ?case by simp
next
  case (Cons e evs)
  then show ?case by (cases e) simp_all
qed

lemma run_connection_timers:
  "run_connection False (replicate n TimerDue)
     = \<lparr>enqueued = connected_chunk # replicate n heartbeat_chunk, interval = Some 30000,
        abort_listener = True, closed = False, aborted = False\<rparr>"
  unfolding run_connection_def
  by (subst deliver_timers [where p = 30000])
     (simp_all add: handleSseConnection_def new_connection_def)

lemma run_connection_aborted:
  "run_connection False (replicate n TimerDue @ AbortFired # evs)
     = \<lparr>enqueued = connected_chunk # replicate n heartbeat_chunk, interval = None,
        abort_listener = True, closed = True, aborted = True\<rparr>"
proof -
  have "run_connection False (replicate n TimerDue @ AbortFired # evs)
          = foldl deliver (deliver (run_connection False (replicate n TimerDue)) AbortFired) evs"
    by (simp add: run_connection_def)
  also have "deliver (run_connection False (replicate n TimerDue)) AbortFired
          = \<lparr>enqueued = connected_chunk # replicate n heartbeat_chunk, interval = None,
             abort_listener = True, closed = True, aborted = True\<rparr>"
    by (simp add: run_connection_timers)
  also have "foldl deliver \<dots> evs = \<dots>"
    by (rule deliver_after_abort) simp_all
  finally show ?thesis .
qed

text \<open>A list of events is some timer firings, followed by nothing or by the signal.\<close>

lemma split_at_abort:
  "\<exists>rest. evs = replicate (length (takeWhile (\<lambda>e. e \<noteq> AbortFired) evs)) TimerDue @ rest
          \<and> (if AbortFired \<in> set evs then \<exists>r. rest = AbortFired # r else rest = [])"
proof (induction evs)
  case Nil
  show ?case by simp
next
  case (Cons e evs)
  show ?case
  proof (cases e)
    case TimerDue
    with Cons show ?thesis by auto
  next
    case AbortFired
    then show ?thesis by simp
  qed
qed

lemma run_connection_state:
  "run_connection False evs =
     (if AbortFired \<in> set evs then
        \<lparr>enqueued = connected_chunk
           # replicate (length (takeWhile (\<lambda>e. e \<noteq> AbortFired) evs)) heartbeat_chunk,
         interval = None, abort_listener = True, closed = True, aborted = True\<rparr>
      else
        \<lparr>enqueued = connected_chunk
           # replicate (length (takeWhile (\<lambda>e. e \<noteq> AbortFired) evs)) heartbeat_chunk,
         interval = Some 30000, abort_listener = True, closed = False, aborted = False\<rparr>)"
proof -
  from split_at_abort [of evs] obtain rest where
    evs: "evs = replicate (length (takeWhile (\<lambda>e. e \<noteq> AbortFired) evs)) TimerDue @ rest"
    and rest: "if AbortFired \<in> set evs then \<exists>r. rest = AbortFired # r else rest = []"
    by blast
  show ?thesis
  proof (cases "AbortFired \<in> set evs")
    case True
    with rest obtain r where "rest = AbortFired # r" by auto
    with evs have "run_connection False evs
      = run_connection False (replicate (length (takeWhile (\<lambda>e. e \<noteq> AbortFired) evs)) TimerDue
          @ AbortFired # r)" by simp
    with True show ?thesis by (simp only: run_connection_aborted if_True)
  next
    case False
    with rest have "rest = []" by simp
    with evs have "run_connection False evs
      = run_connection False (replicate (length (takeWhile (\<lambda>e. e \<noteq> AbortFired) evs)) TimerDue)"
      by simp
    with False show ?thesis by (simp only: run_connection_timers if_False)
  qed
qed

lemma takeWhile_until_abort:
  "takeWhile (\<lambda>e. e \<noteq> AbortFired) (evs @ AbortFired # xs)
     = takeWhile (\<lambda>e. e \<noteq> AbortFired) evs"
  by (induction evs) simp_all

text \<open>
  A connection whose signal has not fired when the stream starts. Whatever the engine
  delivers to it afterwards (timer firings and the abort signal, in any order): the
  first chunk on the stream is the event \<open>connected\<close> with the data
  \<open>{"serverId": "cloudflare-mcp-server"}\<close>, a server id that is not empty; every later
  chunk is the event \<open>heartbeat\<close>, one for each firing of the timer before the signal
  fires; the timer is set with a period of 30000 milliseconds and stays set as long as
  the signal has not fired; and once the signal has fired the timer is cleared and no
  chunk is ever added. A GET request is answered with the event stream.
\<close>

lemma events_when_signal_fires_later:
  "(http_method rq = ''GET'' \<longrightarrow>
      resp_body (fst (SseHandler_fetch rt srv rq)) = BodyEventStream
      \<and> resp_status (fst (SseHandler_fetch rt srv rq)) = 200)
   \<and> enqueued (run_connection False evs)
       = connected_chunk
         # replicate (length (takeWhile (\<lambda>e. e \<noteq> AbortFired) evs)) heartbeat_chunk
   \<and> connected_chunk
       = sse_event ''connected''
           (''{'' @ [CHR 0x22] @ ''serverId'' @ [CHR 0x22] @ '': '' @ [CHR 0x22]
            @ ''cloudflare-mcp-server'' @ [CHR 0x22] @ ''}'')
   \<and> ''cloudflare-mcp-server'' \<noteq> []
   \<and> heartbeat_chunk = sse_event ''heartbeat'' ''{}''
   \<and> interval (run_connection False (replicate n TimerDue)) = Some 30000
   \<and> interval (run_connection False (evs @ [AbortFired])) = None
   \<and> enqueued (run_connection False (evs @ AbortFired # later))
       = enqueued (run_connection False (evs @ [AbortFired]))
   \<and> enqueued (run_connection False (evs @ [AbortFired])) = enqueued (run_connection False evs)"
proof -
  have get: "http_method rq = ''GET'' \<longrightarrow>
      resp_body (fst (SseHandler_fetch rt srv rq)) = BodyEventStream
      \<and> resp_status (fst (SseHandler_fetch rt srv rq)) = 200"
    by (simp add: SseHandler_fetch_def)
  have texts: "connected_chunk
       = sse_event ''connected''
           (''{'' @ [CHR 0x22] @ ''serverId'' @ [CHR 0x22] @ '': '' @ [CHR 0x22]
            @ ''cloudflare-mcp-server'' @ [CHR 0x22] @ ''}'')"
    "heartbeat_chunk = sse_event ''heartbeat'' ''{}''"
    by (simp_all add: connected_chunk_def heartbeat_chunk_def sse_event_def)
  have first: "enqueued (run_connection False evs)
       = connected_chunk
         # replicate (length (takeWhile (\<lambda>e. e \<noteq> AbortFired) evs)) heartbeat_chunk"
    by (simp add: run_connection_state)
  have period: "interval (run_connection False (replicate n TimerDue)) = Some 30000"
    by (simp add: run_connection_timers)
  have cleared: "interval (run_connection False (evs @ [AbortFired])) = None"
    by (simp add: run_connection_state)
  have after: "enqueued (run_connection False (evs @ AbortFired # xs)) = enqueued (run_connection False evs)"
    for xs
    by (simp add: run_connection_state takeWhile_until_abort)
  from get texts first period cleared after [of later] after [of "[]"]
  show ?thesis by (intro conjI) simp_all
qed

text \<open>
  When the signal had fired before the stream started, the listener is installed too
  late to run: the timer stays set, the controller stays open, and every firing of the
  timer adds a heartbeat, whatever else is delivered.
\<close>

lemma deliver_abort_missed:
  assumes "aborted c" and "interval c = Some p" and "\<not> closed c"
  shows "foldl deliver c evs
           = c\<lparr>enqueued := enqueued c
                @ replicate (length (filter (\<lambda>e. e = TimerDue) evs)) heartbeat_chunk\<rparr>"
  using assms
proof (induction evs arbitrary: c)
  case Nil
  then show ?case by simp
next
  case (Cons e evs)
  show ?case
  proof (cases e)
    case TimerDue
    let ?c = "c\<lparr>enqueued := enqueued c @ [heartbeat_chunk]\<rparr>"
    from Cons.prems have step: "deliver c TimerDue = ?c" by simp
    from Cons.prems have "aborted ?c" and "interval ?c = Some p" and "\<not> closed ?c"
      by simp_all
    from Cons.IH [OF this] step TimerDue show ?thesis
      by (simp add: replicate_app_Cons_same)
  next
    case AbortFired
    from Cons.prems have "deliver c AbortFired = c" by simp
    with Cons.IH [OF Cons.prems] AbortFired show ?thesis by simp
  qed
qed

lemma run_connection_abort_missed:
  "run_connection True evs
     = \<lparr>enqueued = connected_chunk
          # replicate (length (filter (\<lambda>e. e = TimerDue) evs)) heartbeat_chunk,
        interval = Some 30000, abort_listener = True, closed = False, aborted = True\<rparr>"
  unfolding run_connection_def
  by (subst deliver_abort_missed [where p = 30000])
     (simp_all add: handleSseConnection_def new_connection_def)

text \<open>
  C6. On every GET connection the first event is \<open>connected\<close> with a server id that is
  not empty, the later events are heartbeats of the 30-second timer, and no event is
  emitted once the abort signal of the connection has fired. The code keeps this for a
  signal that fires after the stream has started (the lemma
  \<open>events_when_signal_fires_later\<close>), and breaks it for a signal that has fired
  before: \<open>handleSseConnection\<close> installs the listener without looking at
  \<open>signal.aborted\<close>, so the listener that clears the timer never runs. Here the
  signal has fired already when the stream starts; two firings of the timer later, two
  heartbeats have been emitted after the signal, the timer is still set and the
  controller is still open.
\<close>

theorem heartbeats_after_earlier_abort:
  "aborted (new_connection True)
   \<and> run_connection True [TimerDue, TimerDue]
       = \<lparr>enqueued = [connected_chunk, heartbeat_chunk, heartbeat_chunk],
          interval = Some 30000, abort_listener = True, closed = False, aborted = True\<rparr>"
  by (simp add: run_connection_def handleSseConnection_def new_connection_def)

end
